theory Spec2Isabelle
  imports Complex_Main "HOL-Library.Multiset" "HOL-Library.AList" "HOL-Library.Log_Nat"
begin

section \<open>Numbers, strings and exceptions of the JavaScript sources\<close>

text \<open>
  A JavaScript number is an IEEE 754 double. A finite one is modelled by the real number
  it denotes, \<open>Some x\<close>; \<open>None\<close> stands for a value that is not a finite number:
  \<^verbatim>\<open>NaN\<close>, an infinity and, in a field of a payload or of a source, \<^verbatim>\<open>null\<close>,
  \<^verbatim>\<open>undefined\<close> or a missing field. The server sends each of them as \<^verbatim>\<open>null\<close> (or
  leaves the field out). Where the sources test a value with \<^verbatim>\<open>!= null\<close>, either it
  comes from a parsed JSON text, in which it is a finite number or \<^verbatim>\<open>null\<close>, or it
  is the argument of a converter, whose result is not a finite number for \<^verbatim>\<open>null\<close>,
  for \<^verbatim>\<open>NaN\<close> and for an infinity alike. The sign of zero is not kept.

  Every arithmetic operation returns the double nearest to the exact result, a tie going
  to the double with an even significand; a result of magnitude \<open>2 ^ 1024\<close> or more
  after rounding is an infinity. \<open>fl x\<close> is that rounding of the real \<open>x\<close>: with
  \<open>2 ^ e \<le> \<bar>x\<bar> < 2 ^ (e + 1)\<close>, the doubles around \<open>x\<close> are the multiples of the unit
  \<open>2 ^ (e - 52)\<close>, and of \<open>2 ^ - 1074\<close> in the subnormal range. It is also the number a
  decimal literal of the sources or of a JSON text denotes.
\<close>

type_synonym js_num = "real option"

definition pow2 :: "int \<Rightarrow> real" where
  "pow2 e = (if 0 \<le> e then 2 ^ nat e else 1 / 2 ^ nat (- e))"

text \<open>The exponent \<open>e\<close> with \<open>2 ^ e \<le> x < 2 ^ (e + 1)\<close>, for \<open>x > 0\<close>.\<close>

definition ilog2 :: "real \<Rightarrow> int" where
  "ilog2 x = (if 1 \<le> x then bitlen \<lfloor>x\<rfloor> - 1 else - bitlen (\<lceil>1 / x\<rceil> - 1))"

text \<open>The integer nearest to \<open>y\<close>, the even one of the two when \<open>y\<close> is half-way.\<close>

definition nearest_even :: "int \<Rightarrow> real \<Rightarrow> int" where
  "nearest_even n r =
     (if r < 1 / 2 then n else if 1 / 2 < r then n + 1 else if even n then n else n + 1)"

definition floor_rest :: "real \<Rightarrow> int \<Rightarrow> int" where
  "floor_rest y n = nearest_even n (y - real_of_int n)"

definition round_even :: "real \<Rightarrow> int" where
  "round_even y = floor_rest y \<lfloor>y\<rfloor>"

definition finite_only :: "real \<Rightarrow> js_num" where
  "finite_only y = (if \<bar>y\<bar> < 2 ^ 1024 then Some y else None)"

definition round_to :: "real \<Rightarrow> real \<Rightarrow> js_num" where
  "round_to u x = finite_only (real_of_int (round_even (x / u)) * u)"

definition fl :: "real \<Rightarrow> js_num" where
  "fl x = (if x = 0 then Some 0 else round_to (pow2 (max (ilog2 \<bar>x\<bar> - 52) (- 1074))) x)"

text \<open>
  \<^verbatim>\<open>a + y\<close>, \<^verbatim>\<open>a - y\<close>, \<^verbatim>\<open>a * y\<close> and \<^verbatim>\<open>a / y\<close> for a finite \<open>y\<close> that is not zero as a
  divisor (in the sources a constant, a temperature or a length): from an operand that
  is not a finite number the result is not one either.
\<close>

definition js_add :: "js_num \<Rightarrow> real \<Rightarrow> js_num" where
  "js_add a y = (case a of None \<Rightarrow> None | Some x \<Rightarrow> fl (x + y))"

definition js_sub :: "js_num \<Rightarrow> real \<Rightarrow> js_num" where
  "js_sub a y = (case a of None \<Rightarrow> None | Some x \<Rightarrow> fl (x - y))"

definition js_mul :: "js_num \<Rightarrow> real \<Rightarrow> js_num" where
  "js_mul a y = (case a of None \<Rightarrow> None | Some x \<Rightarrow> fl (x * y))"

definition js_div :: "js_num \<Rightarrow> real \<Rightarrow> js_num" where
  "js_div a y = (case a of None \<Rightarrow> None | Some x \<Rightarrow> fl (x / y))"

text \<open>
  \<^verbatim>\<open>Math.round\<close> rounds to the nearest integer, halves towards plus infinity; the
  integer nearest to a double is a double, so nothing is rounded a second time.
\<close>

definition Math_round :: "real \<Rightarrow> int" where
  "Math_round x = \<lfloor>x + 1 / 2\<rfloor>"

definition js_round :: "js_num \<Rightarrow> js_num" where
  "js_round a = (case a of None \<Rightarrow> None | Some x \<Rightarrow> Some (real_of_int (Math_round x)))"

text \<open>
  \<^verbatim>\<open>function cToF(c) { return c != null ? Math.round((c * 9 / 5 + 32) * 10) / 10 : null; }\<close>
  The operations are taken from left to right: \<^verbatim>\<open>c * 9\<close>, then \<^verbatim>\<open>/ 5\<close>, then
  \<^verbatim>\<open>+ 32\<close>, then \<^verbatim>\<open>* 10\<close>, each one rounded.
\<close>

definition cToF :: "js_num \<Rightarrow> js_num" where
  "cToF c = js_div (js_round (js_mul (js_add (js_div (js_mul c 9) 5) 32) 10)) 10"

text \<open>\<^verbatim>\<open>function fToC(f) { return f != null ? Math.round(((f - 32) * 5 / 9) * 10) / 10 : null; }\<close>\<close>

definition fToC :: "js_num \<Rightarrow> js_num" where
  "fToC f = js_div (js_round (js_mul (js_div (js_mul (js_sub f 32) 5) 9) 10)) 10"

text \<open>
  What a promise can reject with or a statement can throw. \<open>FetchError\<close> stands for every
  rejection of \<^verbatim>\<open>safeFetch\<close> and \<^verbatim>\<open>safeFetchText\<close>: a transport error, the abort
  of the timeout, a status that is not ok, a body that does not parse.
\<close>

datatype js_error = FetchError | TypeError | RangeError

type_synonym 'a fetched = "js_error + 'a"

text \<open>\<^verbatim>\<open>String.prototype.toLowerCase\<close> on the ASCII letters.\<close>

definition lower_char :: "char \<Rightarrow> char" where
  "lower_char c =
     (case map_of (zip ''ABCDEFGHIJKLMNOPQRSTUVWXYZ'' ''abcdefghijklmnopqrstuvwxyz'') c of
        Some l \<Rightarrow> l | None \<Rightarrow> c)"

definition toLowerCase :: "string \<Rightarrow> string" where
  "toLowerCase s = map lower_char s"

text \<open>
  \<^verbatim>\<open>parseInt(s)\<close> without a radix: leading white space is skipped, a sign is read, the
  prefix \<^verbatim>\<open>0x\<close> selects radix 16, and the longest prefix of digits is the value, as
  a double; with no digit the result is \<^verbatim>\<open>NaN\<close>, here \<open>None\<close>. So the result is an
  integer-valued number or \<^verbatim>\<open>NaN\<close>, an \<open>int option\<close>. More than 308 digits give
  \<^verbatim>\<open>Infinity\<close>, which is \<open>None\<close> as well: where the routes use the day offset (as an
  array index, and in \<^verbatim>\<open>setDate\<close>), \<^verbatim>\<open>Infinity\<close> and \<^verbatim>\<open>NaN\<close> do the same.

  A string is the list of the bytes of its UTF-8 text. The white space that
  \<^verbatim>\<open>parseInt\<close> skips is the white space and the line terminators of the language:
  U+0009 to U+000D, U+0020, U+00A0, U+1680, U+2000 to U+200A, U+2028, U+2029, U+202F,
  U+205F, U+3000 and U+FEFF.
\<close>

definition white_space :: "string list" where
  "white_space =
     [[CHR 0x09], [CHR 0x0A], [CHR 0x0B], [CHR 0x0C], [CHR 0x0D], [CHR 0x20],
      [CHR 0xC2, CHR 0xA0], [CHR 0xE1, CHR 0x9A, CHR 0x80],
      [CHR 0xE2, CHR 0x80, CHR 0x80], [CHR 0xE2, CHR 0x80, CHR 0x81],
      [CHR 0xE2, CHR 0x80, CHR 0x82], [CHR 0xE2, CHR 0x80, CHR 0x83],
      [CHR 0xE2, CHR 0x80, CHR 0x84], [CHR 0xE2, CHR 0x80, CHR 0x85],
      [CHR 0xE2, CHR 0x80, CHR 0x86], [CHR 0xE2, CHR 0x80, CHR 0x87],
      [CHR 0xE2, CHR 0x80, CHR 0x88], [CHR 0xE2, CHR 0x80, CHR 0x89],
      [CHR 0xE2, CHR 0x80, CHR 0x8A], [CHR 0xE2, CHR 0x80, CHR 0xA8],
      [CHR 0xE2, CHR 0x80, CHR 0xA9], [CHR 0xE2, CHR 0x80, CHR 0xAF],
      [CHR 0xE2, CHR 0x81, CHR 0x9F], [CHR 0xE3, CHR 0x80, CHR 0x80],
      [CHR 0xEF, CHR 0xBB, CHR 0xBF]]"

text \<open>The white-space character a string starts with, if it starts with one.\<close>

definition leading_ws :: "string \<Rightarrow> string option" where
  "leading_ws s = find (\<lambda>w. take (length w) s = w) white_space"

text \<open>
  Skipping white space, one character after the other; \<open>n\<close> bounds the number of
  characters skipped, and the length of the string is bound enough.
\<close>

fun skip_ws :: "nat \<Rightarrow> string \<Rightarrow> string" where
  "skip_ws 0 s = s"
| "skip_ws (Suc n) s = (case leading_ws s of None \<Rightarrow> s | Some w \<Rightarrow> skip_ws n (drop (length w) s))"

definition trim_start :: "string \<Rightarrow> string" where
  "trim_start s = skip_ws (length s) s"

definition digit_val :: "char \<Rightarrow> nat option" where
  "digit_val c = map_of (zip ''0123456789'' [0, 1, 2, 3, 4, 5, 6, 7, 8, 9]) c"

definition hex_val :: "char \<Rightarrow> nat option" where
  "hex_val c =
     map_of (zip ''0123456789abcdefABCDEF''
               [0, 1, 2, 3, 4, 5, 6, 7, 8, 9, 10, 11, 12, 13, 14, 15, 10, 11, 12, 13, 14, 15]) c"

fun take_digits :: "(char \<Rightarrow> nat option) \<Rightarrow> string \<Rightarrow> nat list" where
  "take_digits dv [] = []"
| "take_digits dv (c # cs) = (case dv c of None \<Rightarrow> [] | Some d \<Rightarrow> d # take_digits dv cs)"

text \<open>The double nearest to an integer, which is an integer again.\<close>

definition int_number :: "int \<Rightarrow> int option" where
  "int_number n = (case fl (real_of_int n) of None \<Rightarrow> None | Some y \<Rightarrow> Some \<lfloor>y\<rfloor>)"

definition parseInt :: "string \<Rightarrow> int option" where
  "parseInt s =
     (let s1 = trim_start s;
          (sign, s2) = (case s1 of CHR ''-'' # r \<Rightarrow> (- 1, r) | CHR ''+'' # r \<Rightarrow> (1, r)
                         | _ \<Rightarrow> (1 :: int, s1));
          (radix, s3) = (case s2 of CHR ''0'' # CHR ''x'' # r \<Rightarrow> (16, r)
                         | CHR ''0'' # CHR ''X'' # r \<Rightarrow> (16, r) | _ \<Rightarrow> (10 :: nat, s2));
          ds = take_digits (if radix = 16 then hex_val else digit_val) s3
      in if ds = [] then None
         else int_number (sign * int (foldl (\<lambda>a d. a * radix + d) 0 ds)))"

text \<open>
  \<open>xs[i]\<close> for an integer-valued number or \<^verbatim>\<open>NaN\<close>: outside the array the value is
  \<^verbatim>\<open>undefined\<close>. An element that is itself \<^verbatim>\<open>null\<close> reads as \<open>None\<close> too.
\<close>

definition js_index :: "'a list \<Rightarrow> int option \<Rightarrow> 'a option" where
  "js_index xs i = (case i of None \<Rightarrow> None
     | Some j \<Rightarrow> if 0 \<le> j \<and> nat j < length xs then Some (xs ! nat j) else None)"

definition js_nth :: "'a list \<Rightarrow> nat \<Rightarrow> 'a option" where
  "js_nth xs i = (if i < length xs then Some (xs ! i) else None)"

text \<open>
  Reading a property of an object literal: an own property first, then the members every
  object literal inherits from \<^verbatim>\<open>Object.prototype\<close>. The inherited members are
  functions, or the prototype object itself: all of them are truthy, and none has a field
  of a station.
\<close>

datatype 'a js_lookup = Undefined | Own 'a | Inherited

definition Object_prototype_keys :: "string list" where
  "Object_prototype_keys =
     [''constructor'', ''__proto__'', ''hasOwnProperty'', ''isPrototypeOf'',
      ''propertyIsEnumerable'', ''toLocaleString'', ''toString'', ''valueOf'',
      ''__defineGetter__'', ''__defineSetter__'', ''__lookupGetter__'', ''__lookupSetter__'']"

definition js_get :: "(string \<times> 'a) list \<Rightarrow> string \<Rightarrow> 'a js_lookup" where
  "js_get obj k = (case map_of obj k of Some v \<Rightarrow> Own v
     | None \<Rightarrow> if k \<in> set Object_prototype_keys then Inherited else Undefined)"

text \<open>Truthiness of a string-or-null field: \<^verbatim>\<open>null\<close> and the empty string are falsy.\<close>

definition truthy :: "string option \<Rightarrow> bool" where
  "truthy s = (case s of None \<Rightarrow> False | Some t \<Rightarrow> t \<noteq> [])"

section \<open>Station registry\<close>

datatype unit_t = UnitC | UnitF

record scrape_site =
  site_id :: string
  site_name :: string
  site_url :: string

record nws_grid =
  office :: string
  grid_x :: nat
  grid_y :: nat

text \<open>
  One station of \<^verbatim>\<open>STATIONS\<close>. The coordinates and the time zone only enter the request
  URLs, which the model does not build: what each provider answers is an input. A field
  that a version of the registry does not have is \<open>None\<close>.
\<close>

record station =
  icao :: string
  name :: string
  displayName :: string
  cfg_unit :: unit_t
  openMeteoModels :: "string list"
  modelLabels :: "(string \<times> string) list"
  nwsStation :: "string option"
  nwsGrid :: "nws_grid option"
  iemNetwork :: "string option"
  metOfficeUrl :: "string option"
  wuUrl :: "string option"
  wuUnit :: "unit_t option"
  scrapperUrls :: "scrape_site list option"

definition eu_models :: "string list" where
  "eu_models = [''ecmwf_ifs025'', ''gfs_seamless'', ''meteofrance_arome_france_hd'', ''ukmo_seamless'']"

definition eu_labels :: "(string \<times> string) list" where
  "eu_labels = [(''ecmwf_ifs025'', ''ECMWF''), (''gfs_seamless'', ''GFS''),
                (''meteofrance_arome_france_hd'', ''AROME''), (''ukmo_seamless'', ''UKMO'')]"

definition us_models :: "string list" where
  "us_models = [''ecmwf_ifs025'', ''gfs_seamless'']"

definition us_labels :: "(string \<times> string) list" where
  "us_labels = [(''ecmwf_ifs025'', ''ECMWF''), (''gfs_seamless'', ''GFS'')]"

text \<open>The registry of \<^verbatim>\<open>server.js\<close>: page scrapes by URL, no search targets.\<close>

definition london_v2 :: station where
  "london_v2 =
     \<lparr>icao = ''EGLL'', name = ''London City Airport'', displayName = ''LONDON'',
      cfg_unit = UnitC, openMeteoModels = eu_models, modelLabels = eu_labels,
      nwsStation = None, nwsGrid = None, iemNetwork = None,
      metOfficeUrl = Some ''https://www.metoffice.gov.uk/weather/forecast/gcpvj0v07'',
      wuUrl = Some ''https://www.wunderground.com/forecast/gb/london'', wuUnit = Some UnitC,
      scrapperUrls = None\<rparr>"

definition paris_v2 :: station where
  "paris_v2 =
     \<lparr>icao = ''LFPG'', name = ''Paris Charles de Gaulle'', displayName = ''PARIS'',
      cfg_unit = UnitC, openMeteoModels = eu_models, modelLabels = eu_labels,
      nwsStation = None, nwsGrid = None, iemNetwork = None, metOfficeUrl = None,
      wuUrl = Some ''https://www.wunderground.com/forecast/fr/paris'', wuUnit = Some UnitC,
      scrapperUrls = None\<rparr>"

definition dallas_v2 :: station where
  "dallas_v2 =
     \<lparr>icao = ''KDAL'', name = ''Dallas Love Field'', displayName = ''DALLAS'',
      cfg_unit = UnitF, openMeteoModels = us_models, modelLabels = us_labels,
      nwsStation = Some ''KDAL'',
      nwsGrid = Some \<lparr>office = ''FWD'', grid_x = 85, grid_y = 106\<rparr>,
      iemNetwork = Some ''TX_ASOS'', metOfficeUrl = None,
      wuUrl = Some ''https://www.wunderground.com/forecast/us/tx/dallas'', wuUnit = Some UnitF,
      scrapperUrls = None\<rparr>"

definition miami_v2 :: station where
  "miami_v2 =
     \<lparr>icao = ''KMIA'', name = ''Miami Intl Airport'', displayName = ''MIAMI'',
      cfg_unit = UnitF, openMeteoModels = us_models, modelLabels = us_labels,
      nwsStation = Some ''KMIA'',
      nwsGrid = Some \<lparr>office = ''MFL'', grid_x = 76, grid_y = 52\<rparr>,
      iemNetwork = Some ''FL_ASOS'', metOfficeUrl = None,
      wuUrl = Some ''https://www.wunderground.com/forecast/us/fl/miami'', wuUnit = Some UnitF,
      scrapperUrls = None\<rparr>"

definition STATIONS_v2 :: "(string \<times> station) list" where
  "STATIONS_v2 =
     [(''london'', london_v2), (''paris'', paris_v2), (''dallas'', dallas_v2), (''miami'', miami_v2)]"

text \<open>
  The registry of the version with the scrape cache: search targets in \<^verbatim>\<open>scrapperUrls\<close>.
  The accented letters of the Paris target's name are its UTF-8 bytes.
\<close>

definition london :: station where
  "london =
     \<lparr>icao = ''EGLL'', name = ''London City Airport'', displayName = ''LONDON'',
      cfg_unit = UnitC, openMeteoModels = eu_models, modelLabels = eu_labels,
      nwsStation = None, nwsGrid = None, iemNetwork = None, metOfficeUrl = None,
      wuUrl = None, wuUnit = None,
      scrapperUrls = Some
        [\<lparr>site_id = ''metoffice'', site_name = ''Met Office'',
           site_url = ''https://www.metoffice.gov.uk/weather/forecast/gcpvj0v07''\<rparr>,
         \<lparr>site_id = ''wunderground'', site_name = ''Weather Underground'',
           site_url = ''https://www.wunderground.com/weather/gb/london''\<rparr>,
         \<lparr>site_id = ''bbc'', site_name = ''BBC Weather'',
           site_url = ''https://www.bbc.com/weather/2643743''\<rparr>,
         \<lparr>site_id = ''accu'', site_name = ''AccuWeather'',
           site_url = ''https://www.accuweather.com/en/gb/london/ec4a-2/weather-forecast/328328''\<rparr>]\<rparr>"

definition paris :: station where
  "paris =
     \<lparr>icao = ''LFPG'', name = ''Paris Charles de Gaulle'', displayName = ''PARIS'',
      cfg_unit = UnitC, openMeteoModels = eu_models, modelLabels = eu_labels,
      nwsStation = None, nwsGrid = None, iemNetwork = None, metOfficeUrl = None,
      wuUrl = None, wuUnit = None,
      scrapperUrls = Some
        [\<lparr>site_id = ''meteo'',
           site_name = ''M'' @ [CHR 0xC3, CHR 0xA9] @ ''t'' @ [CHR 0xC3, CHR 0xA9] @ ''o-France'',
           site_url = ''https://meteofrance.com/previsions-meteo-france/paris/75000''\<rparr>]\<rparr>"

definition dallas :: station where
  "dallas =
     \<lparr>icao = ''KDAL'', name = ''Dallas Love Field'', displayName = ''DALLAS'',
      cfg_unit = UnitF, openMeteoModels = us_models, modelLabels = us_labels,
      nwsStation = Some ''KDAL'',
      nwsGrid = Some \<lparr>office = ''FWD'', grid_x = 85, grid_y = 106\<rparr>,
      iemNetwork = Some ''TX_ASOS'', metOfficeUrl = None, wuUrl = None, wuUnit = None,
      scrapperUrls = Some
        [\<lparr>site_id = ''weather_chan'', site_name = ''Weather Channel'',
           site_url = ''https://weather.com/weather/today/l/Dallas+TX''\<rparr>]\<rparr>"

definition miami :: station where
  "miami =
     \<lparr>icao = ''KMIA'', name = ''Miami Intl Airport'', displayName = ''MIAMI'',
      cfg_unit = UnitF, openMeteoModels = us_models, modelLabels = us_labels,
      nwsStation = Some ''KMIA'',
      nwsGrid = Some \<lparr>office = ''MFL'', grid_x = 76, grid_y = 52\<rparr>,
      iemNetwork = Some ''FL_ASOS'', metOfficeUrl = None, wuUrl = None, wuUnit = None,
      scrapperUrls = Some
        [\<lparr>site_id = ''weather_chan'', site_name = ''Weather Channel'',
           site_url = ''https://weather.com/weather/today/l/Miami+FL''\<rparr>]\<rparr>"

definition STATIONS :: "(string \<times> station) list" where
  "STATIONS = [(''london'', london), (''paris'', paris), (''dallas'', dallas), (''miami'', miami)]"

section \<open>Sources and adapter payloads\<close>

datatype kind = Live | Recorded | Forecast | Model | Scraped

text \<open>
  The \<^verbatim>\<open>id\<close> of a source: a fixed or concatenated string, or the template
  \<^verbatim>\<open>scraped_${site.id}_d${dayOffset}\<close> kept as its two parts (the day offset is an
  integer-valued number or \<^verbatim>\<open>NaN\<close>).
\<close>

datatype source_id = Id string | ScrapedId string "int option"

record forecast_entry =
  fc_name :: "string option"
  fc_temp_f :: js_num
  fc_temp_c :: js_num
  fc_startTime :: "string option"
  fc_shortForecast :: "string option"

text \<open>
  A source object as the server pushes it and the page reads it: the fields an object
  does not have are \<open>None\<close>. \<^verbatim>\<open>dailyMax\<close> is an object keyed by day, kept as an
  association list in insertion order; each value is the pair \<open>(temp_c, temp_f)\<close>.
\<close>

record source =
  src_id :: source_id
  src_name :: "string option"
  src_type :: kind
  temp_c :: js_num
  temp_f :: js_num
  src_time :: "string option"
  src_date :: "string option"
  forecasts :: "forecast_entry list option"
  days :: "string list option"
  dailyMax :: "(string \<times> js_num \<times> js_num) list option"
  url :: "string option"

definition new_source :: "source_id \<Rightarrow> string option \<Rightarrow> kind \<Rightarrow> source" where
  "new_source i n k =
     \<lparr>src_id = i, src_name = n, src_type = k, temp_c = None, temp_f = None, src_time = None,
      src_date = None, forecasts = None, days = None, dailyMax = None, url = None\<rparr>"

text \<open>What each provider's JSON holds of the fields the handlers read.\<close>

record metar_obs =
  m_temp :: js_num
  m_reportTime :: "string option"

record nws_observation =
  temperature_value :: js_num
  timestamp :: "string option"

record nws_period =
  p_name :: "string option"
  isDaytime :: bool
  p_temperature :: js_num
  p_startTime :: "string option"
  p_shortForecast :: "string option"

record open_meteo =
  daily_time :: "string list option"
  daily_series :: "(string \<times> js_num list) list"

record iem_entry =
  max_tmpf :: js_num
  iem_date :: "string option"

text \<open>
  The regular expressions of the sources, by name; what a match captures is a parameter
  \<open>rx\<close> of the model: \<open>rx re text\<close> is the number parsed from group 1 of the first
  match of \<open>re\<close> in \<open>text\<close>, and \<open>None\<close> when there is no match (or no number).
\<close>

datatype regex =
    Re_maxTemperature | Re_temperature_units_c
  | Re_temperatureMax | Re_tempHi | Re_high
  | Re_high_of | Re_max_of | Re_pair_slash | Re_degree | Re_maximum_daytime

type_synonym matcher = "regex \<Rightarrow> string \<Rightarrow> real option"

section \<open>The aggregate route of \<^verbatim>\<open>server.js\<close>\<close>

text \<open>
  Every task is \<^verbatim>\<open>safeFetch(url).then(handler).catch(() => { })\<close>: a rejected fetch and
  an exception of the handler are both swallowed. A handler is modelled by the list of
  sources it pushes; \<open>task\<close> is the wrapper.
\<close>

definition task :: "('a \<Rightarrow> source list) \<Rightarrow> 'a fetched \<Rightarrow> source list" where
  "task handler r = (case r of Inl e \<Rightarrow> [] | Inr d \<Rightarrow> handler d)"

text \<open>1) METAR: \<^verbatim>\<open>const m = d?.[0]; if (m && m.temp != null) sources.push(...)\<close>\<close>

definition metar_handler :: "metar_obs list \<Rightarrow> source list" where
  "metar_handler d = (case d of [] \<Rightarrow> []
     | m # _ \<Rightarrow> (case m_temp m of None \<Rightarrow> []
         | Some t \<Rightarrow> [(new_source (Id ''metar'') (Some ''METAR Sensor'') Live)
                        \<lparr>temp_c := Some t, temp_f := cToF (Some t), src_time := m_reportTime m\<rparr>]))"

text \<open>
  2) NWS observation: \<^verbatim>\<open>temp_c: Math.round(p.temperature.value * 10) / 10,
  temp_f: cToF(p.temperature.value)\<close>
\<close>

definition nws_obs_handler :: "nws_observation \<Rightarrow> source list" where
  "nws_obs_handler p = (case temperature_value p of None \<Rightarrow> []
     | Some v \<Rightarrow> [(new_source (Id ''nws_obs'') (Some ''NWS Observation'') Live)
                    \<lparr>temp_c := js_div (js_round (js_mul (Some v) 10)) 10,
                     temp_f := cToF (Some v), src_time := timestamp p\<rparr>])"

text \<open>3) NWS forecast: the first three daytime periods.\<close>

definition nws_forecast_handler :: "nws_period list option \<Rightarrow> source list" where
  "nws_forecast_handler periods = (case periods of None \<Rightarrow> []
     | Some ps \<Rightarrow>
         [(new_source (Id ''nws_forecast'') (Some ''NWS Forecast'') Forecast)
            \<lparr>forecasts := Some (map (\<lambda>p. \<lparr>fc_name = p_name p, fc_temp_f = p_temperature p,
                  fc_temp_c = fToC (p_temperature p), fc_startTime = p_startTime p,
                  fc_shortForecast = p_shortForecast p\<rparr>) (take 3 (filter isDaytime ps)))\<rparr>])"

text \<open>
  4) Open-Meteo: one source per model that has a series. \<^verbatim>\<open>days.forEach\<close> fills
  \<^verbatim>\<open>dailyMax\<close>; a later day of the same name overwrites the earlier one. A model without
  a label makes \<^verbatim>\<open>label.toLowerCase()\<close> throw: the handler stops there, and what it
  pushed before stays.
\<close>

definition daily_max_of :: "string list \<Rightarrow> js_num list \<Rightarrow> (string \<times> js_num \<times> js_num) list" where
  "daily_max_of ds series =
     fold (\<lambda>(i, day) acc.
             (let tc = (case js_nth series i of None \<Rightarrow> None | Some v \<Rightarrow> v)
              in AList.update day (tc, cToF tc) acc))
          (zip [0 ..< length ds] ds) []"

fun open_meteo_models :: "station \<Rightarrow> open_meteo \<Rightarrow> string list \<Rightarrow> string list \<Rightarrow> source list" where
  "open_meteo_models cfg d ds [] = []"
| "open_meteo_models cfg d ds (model # rest) =
     (case map_of (daily_series d) (''temperature_2m_max_'' @ model) of
        None \<Rightarrow> open_meteo_models cfg d ds rest
      | Some series \<Rightarrow>
          (case map_of (modelLabels cfg) model of
             None \<Rightarrow> []
           | Some label \<Rightarrow>
               (new_source (Id (''model_'' @ toLowerCase label)) (Some label) Model)
                 \<lparr>days := Some ds, dailyMax := Some (daily_max_of ds series)\<rparr>
               # open_meteo_models cfg d ds rest))"

definition open_meteo_handler :: "station \<Rightarrow> open_meteo \<Rightarrow> source list" where
  "open_meteo_handler cfg d = (case daily_time d of None \<Rightarrow> []
     | Some ds \<Rightarrow> open_meteo_models cfg d ds (openMeteoModels cfg))"

text \<open>
  5) IEM daily summary: \<^verbatim>\<open>if (entry?.max_tmpf)\<close> is a truthiness test, so a recorded
  maximum of 0 is skipped like a missing one. The field is taken to be a number or null,
  so that \<^verbatim>\<open>parseFloat\<close> returns it.
\<close>

definition iem_handler :: "iem_entry list \<Rightarrow> source list" where
  "iem_handler d = (case d of [] \<Rightarrow> []
     | entry # _ \<Rightarrow> (case max_tmpf entry of None \<Rightarrow> []
         | Some t \<Rightarrow> if t = 0 then []
             else [(new_source (Id ''iem'') (Some ''IEM Recorded Max'') Recorded)
                     \<lparr>temp_f := Some t, temp_c := fToC (Some t), src_date := iem_date entry\<rparr>]))"

text \<open>\<^verbatim>\<open>extractFirstTemp(html, patterns)\<close>: the first pattern that yields a number.\<close>

fun extractFirstTemp :: "matcher \<Rightarrow> string \<Rightarrow> regex list \<Rightarrow> real option" where
  "extractFirstTemp rx page [] = None"
| "extractFirstTemp rx page (re # patterns) =
     (case rx re page of Some n \<Rightarrow> Some n | None \<Rightarrow> extractFirstTemp rx page patterns)"

definition scraped_today :: "js_num \<Rightarrow> js_num \<Rightarrow> forecast_entry" where
  "scraped_today tc tf =
     \<lparr>fc_name = Some ''Today'', fc_temp_f = tf, fc_temp_c = tc, fc_startTime = None,
      fc_shortForecast = Some ''Scraped''\<rparr>"

text \<open>6) Met Office page scrape.\<close>

definition metoffice_handler :: "matcher \<Rightarrow> string \<Rightarrow> source list" where
  "metoffice_handler rx page =
     (case extractFirstTemp rx page [Re_maxTemperature, Re_temperature_units_c] of
        None \<Rightarrow> []
      | Some maxC \<Rightarrow>
          [(new_source (Id ''metoffice_scrape'') (Some ''Met Office (scrape)'') Forecast)
             \<lparr>forecasts := Some [scraped_today (Some maxC) (cToF (Some maxC))]\<rparr>])"

text \<open>7) Weather Underground page scrape, in the unit \<^verbatim>\<open>cfg.wuUnit\<close>.\<close>

definition wu_handler :: "matcher \<Rightarrow> station \<Rightarrow> string \<Rightarrow> source list" where
  "wu_handler rx cfg page =
     (case extractFirstTemp rx page [Re_temperatureMax, Re_tempHi, Re_high] of
        None \<Rightarrow> []
      | Some maxRaw \<Rightarrow>
          (let tc = (if wuUnit cfg = Some UnitF then fToC (Some maxRaw) else Some maxRaw);
               tf = (if wuUnit cfg = Some UnitF then Some maxRaw else cToF (Some maxRaw))
           in [(new_source (Id ''wu_scrape'') (Some ''Weather Underground (scrape)'') Forecast)
                 \<lparr>forecasts := Some [scraped_today tc tf]\<rparr>]))"

text \<open>What the seven providers answer to one request.\<close>

record world_v2 =
  w_metar :: "metar_obs list fetched"
  w_nws_obs :: "nws_observation fetched"
  w_nws_forecast :: "nws_period list option fetched"
  w_open_meteo :: "open_meteo fetched"
  w_iem :: "iem_entry list fetched"
  w_metoffice :: "string fetched"
  w_wu :: "string fetched"

text \<open>The tasks the route starts for a station, in the order of the source text.\<close>

definition tasks_v2 :: "matcher \<Rightarrow> station \<Rightarrow> world_v2 \<Rightarrow> source list list" where
  "tasks_v2 rx cfg w =
     [task metar_handler (w_metar w)]
     @ (if truthy (nwsStation cfg) then [task nws_obs_handler (w_nws_obs w)] else [])
     @ (if nwsGrid cfg \<noteq> None then [task nws_forecast_handler (w_nws_forecast w)] else [])
     @ [task (open_meteo_handler cfg) (w_open_meteo w)]
     @ (if truthy (iemNetwork cfg) then [task iem_handler (w_iem w)] else [])
     @ (if truthy (metOfficeUrl cfg) then [task (metoffice_handler rx) (w_metoffice w)] else [])
     @ (if truthy (wuUrl cfg) then [task (wu_handler rx cfg) (w_wu w)] else [])"

text \<open>
  \<^verbatim>\<open>await Promise.all(tasks)\<close>: each task pushes its sources when it settles, so the
  array holds the tasks' outputs in the order in which they complete. \<open>sched\<close> lists the
  task indices in that order. Every fetch is taken to settle: it is answered, rejected,
  or aborted by its timer.
\<close>

definition fan_in :: "source list list \<Rightarrow> nat list \<Rightarrow> source list" where
  "fan_in outs sched = concat (map (\<lambda>i. case js_nth outs i of None \<Rightarrow> [] | Some out \<Rightarrow> out) sched)"

record report =
  r_city :: string
  r_station :: string
  r_name :: "string option"
  r_displayName :: string
  r_unit :: unit_t
  r_sources :: "source list"

text \<open>
  The outcome of a request: the 400 answer \<^verbatim>\<open>{ error: 'Unknown city' }\<close>, the report
  sent with \<^verbatim>\<open>res.json\<close> (its \<^verbatim>\<open>fetchedAt\<close> stamp is left out), or an exception that
  leaves the \<^verbatim>\<open>async\<close> handler, after which the route sends nothing.
\<close>

datatype response = UnknownCity | Json report | Unhandled js_error

text \<open>
  \<^verbatim>\<open>app.get('/api/all/:city', ...)\<close> of \<^verbatim>\<open>server.js\<close>. For an inherited member,
  \<^verbatim>\<open>cfg.openMeteoModels\<close> is \<^verbatim>\<open>undefined\<close> and \<^verbatim>\<open>.join\<close> throws.
\<close>

definition api_all_v2 :: "matcher \<Rightarrow> string \<Rightarrow> world_v2 \<Rightarrow> nat list \<Rightarrow> response" where
  "api_all_v2 rx city_param w sched =
     (let city = toLowerCase city_param in
      case js_get STATIONS_v2 city of
        Undefined \<Rightarrow> UnknownCity
      | Inherited \<Rightarrow> Unhandled TypeError
      | Own cfg \<Rightarrow>
          Json \<lparr>r_city = city, r_station = icao cfg, r_name = Some (name cfg),
                r_displayName = displayName cfg, r_unit = cfg_unit cfg,
                r_sources = fan_in (tasks_v2 rx cfg w) sched\<rparr>)"

section \<open>The scrape cache and the day-aware aggregate route\<close>

definition CACHE_TTL :: int where
  "CACHE_TTL = 5 * 60 * 1000"

text \<open>
  A \<^verbatim>\<open>Date\<close> holds a time value: milliseconds since the epoch, at most 8.64e15 in
  absolute value, or \<^verbatim>\<open>NaN\<close> (an invalid date), here \<open>None\<close>.
  \<^verbatim>\<open>targetDate.setDate(targetDate.getDate() + dayOffset)\<close> moves the date by whole days
  (the server's zone is taken to have a fixed offset) and clips the result:
  \<^verbatim>\<open>NaN\<close> and an out-of-range time give an invalid date.
\<close>

definition msPerDay :: int where
  "msPerDay = 86400000"

definition maxTime :: int where
  "maxTime = 8640000000000000"

definition setDate_plus :: "int \<Rightarrow> int option \<Rightarrow> int option" where
  "setDate_plus t dayOffset = (case dayOffset of None \<Rightarrow> None
     | Some d \<Rightarrow> (let v = t + d * msPerDay in if \<bar>v\<bar> \<le> maxTime then Some v else None))"

text \<open>
  \<^verbatim>\<open>targetDate.toISOString().split('T')[0]\<close>: the UTC calendar date, which the day
  number since the epoch stands for (the two determine each other).
  \<^verbatim>\<open>toISOString\<close> throws a RangeError on an invalid date.
\<close>

definition toISOString_date :: "int option \<Rightarrow> js_error + int" where
  "toISOString_date v = (case v of None \<Rightarrow> Inl RangeError | Some t \<Rightarrow> Inr (t div msPerDay))"

text \<open>
  The key \<^verbatim>\<open>${cfg.displayName}_${dayOffset}_${dateStr}\<close>, kept as its three parts, and
  the entry \<^verbatim>\<open>{ ts, data }\<close> of \<^verbatim>\<open>CACHE\<close>.
\<close>

type_synonym cache_key = "string \<times> int option \<times> int"

record cache_entry =
  c_ts :: int
  c_data :: "source list"

type_synonym cache = "cache_key \<rightharpoonup> cache_entry"

definition dayLabels :: "string list" where
  "dayLabels = [''Today'', ''Tomorrow'', ''Day After'']"

text \<open>
  The search query \<^verbatim>\<open>${site.name} ${cfg.displayName} forecast high max temperature
  ${dayLabels[dayOffset]} ${dateStr}\<close> by its variable parts; a label that is \<open>None\<close>
  prints as \<^verbatim>\<open>undefined\<close>.
\<close>

record query =
  q_site :: string
  q_city :: string
  q_label :: "string option"
  q_date :: int

text \<open>What the scrape does to the outside: a pause of so many milliseconds, a search.\<close>

datatype event = Delay nat | Search query

record search_result =
  description :: string
  title :: string

text \<open>
  The answer to one search is the array \<^verbatim>\<open>data.web?.results || []\<close>, or a rejection;
  an element that is \<^verbatim>\<open>null\<close> is \<open>None\<close>.
\<close>

type_synonym searcher = "query \<Rightarrow> search_result option list fetched"

text \<open>The chain of \<^verbatim>\<open>text.match(...) || ...\<close>: the first expression that matches.\<close>

definition match_temp :: "matcher \<Rightarrow> string \<Rightarrow> real option" where
  "match_temp rx text =
     (case rx Re_high_of text of Some n \<Rightarrow> Some n | None \<Rightarrow>
      (case rx Re_max_of text of Some n \<Rightarrow> Some n | None \<Rightarrow>
       (case rx Re_pair_slash text of Some n \<Rightarrow> Some n | None \<Rightarrow> rx Re_degree text)))"

text \<open>
  \<^verbatim>\<open>if (cfg.unit === 'C' && val > 40) val = fToC(val);
  else if (cfg.unit === 'F' && val < 32) val = cToF(val);\<close>
\<close>

definition scrape_value :: "unit_t \<Rightarrow> real \<Rightarrow> js_num" where
  "scrape_value u n =
     (if u = UnitC \<and> n > 40 then fToC (Some n)
      else if u = UnitF \<and> n < 32 then cToF (Some n)
      else Some n)"

definition scraped_source :: "station \<Rightarrow> int option \<Rightarrow> scrape_site \<Rightarrow> js_num \<Rightarrow> source" where
  "scraped_source cfg dayOffset site val =
     (new_source (ScrapedId (site_id site) dayOffset) (Some (site_name site)) Scraped)
       \<lparr>temp_c := (if cfg_unit cfg = UnitC then val else fToC val),
        temp_f := (if cfg_unit cfg = UnitF then val else cToF val),
        url := Some (site_url site)\<rparr>"

text \<open>
  The inner loop over the results of one search: the first result that matches gives
  the site's source and ends the loop. Reading a field of a \<^verbatim>\<open>null\<close> result throws,
  which the \<^verbatim>\<open>try\<close> around the site catches: the site gives nothing.
\<close>

fun scan_results ::
  "matcher \<Rightarrow> station \<Rightarrow> int option \<Rightarrow> scrape_site \<Rightarrow> search_result option list \<Rightarrow> source list" where
  "scan_results rx cfg dayOffset site [] = []"
| "scan_results rx cfg dayOffset site (None # rest) = []"
| "scan_results rx cfg dayOffset site (Some r # rest) =
     (case match_temp rx (toLowerCase (description r @ '' '' @ title r)) of
        Some n \<Rightarrow> [scraped_source cfg dayOffset site (scrape_value (cfg_unit cfg) n)]
      | None \<Rightarrow> scan_results rx cfg dayOffset site rest)"

definition scrape_site_results ::
  "matcher \<Rightarrow> station \<Rightarrow> int option \<Rightarrow> scrape_site \<Rightarrow> search_result option list fetched \<Rightarrow> source list" where
  "scrape_site_results rx cfg dayOffset site reply =
     (case reply of Inl e \<Rightarrow> [] | Inr results \<Rightarrow> scan_results rx cfg dayOffset site results)"

text \<open>
  \<^verbatim>\<open>for (const site of cfg.scrapperUrls)\<close>: for each site, in order, the pause of 1500 ms,
  then the search, then the scan of its results.
\<close>

definition site_query :: "station \<Rightarrow> int option \<Rightarrow> int \<Rightarrow> scrape_site \<Rightarrow> query" where
  "site_query cfg dayOffset dateStr site =
     \<lparr>q_site = site_name site, q_city = displayName cfg,
      q_label = js_index dayLabels dayOffset, q_date = dateStr\<rparr>"

fun scrape_loop ::
  "matcher \<Rightarrow> station \<Rightarrow> int option \<Rightarrow> int \<Rightarrow> searcher \<Rightarrow> scrape_site list \<Rightarrow> event list \<times> source list" where
  "scrape_loop rx cfg dayOffset dateStr brave [] = ([], [])"
| "scrape_loop rx cfg dayOffset dateStr brave (site # rest) =
     (let q = site_query cfg dayOffset dateStr site;
          found = scrape_site_results rx cfg dayOffset site (brave q);
          (evs, more) = scrape_loop rx cfg dayOffset dateStr brave rest
      in (Delay 1500 # Search q # evs, found @ more))"

text \<open>
  \<open>scrape_begin\<close> is the part of \<^verbatim>\<open>scrapeForecastForDay\<close> from its entry to the test
  of the cache, which contains no \<^verbatim>\<open>await\<close>. It ends with the value to return
  (\<open>Done\<close>), or with a scrape to run (\<open>Pending\<close>).
  \<open>t_new\<close> is the clock read by \<^verbatim>\<open>new Date()\<close>, \<open>t_check\<close> the one read by
  \<^verbatim>\<open>Date.now()\<close> in the test.
\<close>

datatype begun = Done "source list" | Pending cache_key int "scrape_site list"

definition scrape_begin :: "station \<Rightarrow> int option \<Rightarrow> int \<Rightarrow> int \<Rightarrow> cache \<Rightarrow> js_error + begun" where
  "scrape_begin cfg dayOffset t_new t_check CACHE =
     (case scrapperUrls cfg of
        None \<Rightarrow> Inr (Done [])
      | Some sites \<Rightarrow>
          (case toISOString_date (setDate_plus t_new dayOffset) of
             Inl e \<Rightarrow> Inl e
           | Inr dateStr \<Rightarrow>
               (let cacheKey = (displayName cfg, dayOffset, dateStr) in
                case CACHE cacheKey of
                  None \<Rightarrow> Inr (Pending cacheKey dateStr sites)
                | Some entry \<Rightarrow>
                    if t_check - c_ts entry < CACHE_TTL then Inr (Done (c_data entry))
                    else Inr (Pending cacheKey dateStr sites))))"

text \<open>\<^verbatim>\<open>CACHE[cacheKey] = { ts: Date.now(), data: scraped };\<close>\<close>

definition scrape_finish :: "cache_key \<Rightarrow> int \<Rightarrow> source list \<Rightarrow> cache \<Rightarrow> cache" where
  "scrape_finish cacheKey t_store scraped CACHE = CACHE(cacheKey \<mapsto> \<lparr>c_ts = t_store, c_data = scraped\<rparr>)"

record clock =
  t_new :: int
  t_check :: int
  t_store :: int

text \<open>
  One call that runs alone: the value returned, the cache afterwards and what was done
  outside, or the exception thrown.
\<close>

definition scrapeForecastForDay ::
  "matcher \<Rightarrow> station \<Rightarrow> int option \<Rightarrow> clock \<Rightarrow> searcher \<Rightarrow> cache
     \<Rightarrow> js_error + (source list \<times> cache \<times> event list)" where
  "scrapeForecastForDay rx cfg dayOffset clk brave CACHE =
     (case scrape_begin cfg dayOffset (t_new clk) (t_check clk) CACHE of
        Inl e \<Rightarrow> Inl e
      | Inr (Done srcs) \<Rightarrow> Inr (srcs, CACHE, [])
      | Inr (Pending cacheKey dateStr sites) \<Rightarrow>
          (let (evs, scraped) = scrape_loop rx cfg dayOffset dateStr brave sites
           in Inr (scraped, scrape_finish cacheKey (t_store clk) scraped CACHE, evs)))"

text \<open>
  The Open-Meteo handler of the day-aware route: one flat source per model with a series,
  \<^verbatim>\<open>temp_c: data.daily[key][dayOffset]\<close>.
\<close>

fun open_meteo_day :: "station \<Rightarrow> open_meteo \<Rightarrow> int option \<Rightarrow> string list \<Rightarrow> source list" where
  "open_meteo_day cfg d dayOffset [] = []"
| "open_meteo_day cfg d dayOffset (model # rest) =
     (case map_of (daily_series d) (''temperature_2m_max_'' @ model) of
        None \<Rightarrow> open_meteo_day cfg d dayOffset rest
      | Some series \<Rightarrow>
          (let val = (case js_index series dayOffset of None \<Rightarrow> None | Some v \<Rightarrow> v);
               label = map_of (modelLabels cfg) model
           in (new_source (Id (''model_'' @ (case label of None \<Rightarrow> ''undefined'' | Some l \<Rightarrow> l)))
                 label Model) \<lparr>temp_c := val, temp_f := cToF val\<rparr>
              # open_meteo_day cfg d dayOffset rest))"

text \<open>
  \<^verbatim>\<open>app.get('/api/all/:city', ...)\<close> with \<^verbatim>\<open>?day=\<close>. \<open>day\<close> is
  \<^verbatim>\<open>req.query.day\<close>, read as \<^verbatim>\<open>parseInt(req.query.day || '0')\<close>; the scrape runs after the one task has settled, outside any
  \<^verbatim>\<open>try\<close>. The result is the response, the cache and the scrape's events.
\<close>

definition query_day :: "string option \<Rightarrow> int option" where
  "query_day day = parseInt (case day of None \<Rightarrow> ''0'' | Some v \<Rightarrow> if v = [] then ''0'' else v)"

definition api_all ::
  "matcher \<Rightarrow> string \<Rightarrow> string option \<Rightarrow> clock \<Rightarrow> open_meteo fetched \<Rightarrow> searcher \<Rightarrow> cache
     \<Rightarrow> response \<times> cache \<times> event list" where
  "api_all rx city_param day clk om brave CACHE =
     (let city = toLowerCase city_param;
          dayOffset = query_day day
      in case js_get STATIONS city of
           Undefined \<Rightarrow> (UnknownCity, CACHE, [])
         | Inherited \<Rightarrow> (Unhandled TypeError, CACHE, [])
         | Own cfg \<Rightarrow>
             (let sources = task (\<lambda>d. open_meteo_day cfg d dayOffset (openMeteoModels cfg)) om
              in case scrapeForecastForDay rx cfg dayOffset clk brave CACHE of
                   Inl e \<Rightarrow> (Unhandled e, CACHE, [])
                 | Inr (scraped, CACHE', evs) \<Rightarrow>
                     (Json \<lparr>r_city = city, r_station = icao cfg, r_name = None,
                            r_displayName = displayName cfg, r_unit = cfg_unit cfg,
                            r_sources = sources @ scraped\<rparr>, CACHE', evs)))"

text \<open>
  Calls that overlap. A server holds the cache, the calls that have begun a scrape and
  not yet stored its result, what each finished caller received, and the events so far.
  \<open>Start\<close> is the entry of a call, up to the test of the cache. After it a pending call
  awaits every pause and every search, and other calls can run while it waits; but
  between the test of the cache and the final store the call neither reads nor writes
  the cache. So the rest of a pending call is taken as one
  step, \<open>Finish\<close>, placed where its store to the cache happens: its searches, the write
  to the cache, the return. The events of two pending calls appear in the order of their
  \<open>Finish\<close> steps, which says nothing about the order in which their searches are
  really made.
\<close>

record server =
  sv_cache :: cache
  sv_pending :: "nat \<rightharpoonup> station \<times> int option \<times> cache_key \<times> int \<times> scrape_site list"
  sv_returned :: "nat \<rightharpoonup> source list"
  sv_events :: "event list"

datatype call = Start nat station "int option" int int | Finish nat searcher int


fun step :: "matcher \<Rightarrow> server \<Rightarrow> call \<Rightarrow> server" where
  "step rx s (Start caller cfg dayOffset tn tc) =
     (case scrape_begin cfg dayOffset tn tc (sv_cache s) of
        Inl e \<Rightarrow> s
      | Inr (Done srcs) \<Rightarrow> s\<lparr>sv_returned := (sv_returned s)(caller \<mapsto> srcs)\<rparr>
      | Inr (Pending cacheKey dateStr sites) \<Rightarrow>
          s\<lparr>sv_pending := (sv_pending s)(caller \<mapsto> (cfg, dayOffset, cacheKey, dateStr, sites))\<rparr>)"
| "step rx s (Finish caller brave t) =
     (case sv_pending s caller of
        None \<Rightarrow> s
      | Some (cfg, dayOffset, cacheKey, dateStr, sites) \<Rightarrow>
          (let (evs, scraped) = scrape_loop rx cfg dayOffset dateStr brave sites
           in s\<lparr>sv_cache := scrape_finish cacheKey t scraped (sv_cache s),
                sv_pending := (sv_pending s)(caller := None),
                sv_returned := (sv_returned s)(caller \<mapsto> scraped),
                sv_events := sv_events s @ evs\<rparr>))"

definition run :: "matcher \<Rightarrow> server \<Rightarrow> call list \<Rightarrow> server" where
  "run rx s calls = foldl (step rx) s calls"

text \<open>
  Two outside worlds to run the model in: no expression matches anything and every search
  is rejected; every expression captures 20 and every search returns one result.
\<close>

definition no_match :: matcher where
  "no_match re text = None"

definition offline :: searcher where
  "offline q = Inl FetchError"

definition match_20 :: matcher where
  "match_20 re text = Some 20"

definition one_result :: searcher where
  "one_result q = Inr [Some \<lparr>description = ''High of 20'', title = ''Forecast''\<rparr>]"

text \<open>The one scrape target of Paris.\<close>

definition meteo_france :: scrape_site where
  "meteo_france =
     \<lparr>site_id = ''meteo'',
      site_name = ''M'' @ [CHR 0xC3, CHR 0xA9] @ ''t'' @ [CHR 0xC3, CHR 0xA9] @ ''o-France'',
      site_url = ''https://meteofrance.com/previsions-meteo-france/paris/75000''\<rparr>"

definition searches :: "event list \<Rightarrow> query list" where
  "searches evs = concat (map (\<lambda>e. case e of Search q \<Rightarrow> [q] | Delay _ \<Rightarrow> []) evs)"

definition delays :: "event list \<Rightarrow> nat list" where
  "delays evs = concat (map (\<lambda>e. case e of Delay n \<Rightarrow> [n] | Search _ \<Rightarrow> []) evs)"

section \<open>The scrape of the version without a cache\<close>

text \<open>
  \<^verbatim>\<open>scrapeForecast(cfg)\<close> searches each site for the three days at once. Of it the
  model keeps the handler of one search, which builds the source: the first result that
  matches gives \<^verbatim>\<open>maxTemp\<close>, a \<^verbatim>\<open>null\<close> result throws (caught by the
  \<^verbatim>\<open>.catch\<close> of the search), and \<^verbatim>\<open>if (maxTemp)\<close> drops a value of 0 like no match.
  The source's \<^verbatim>\<open>dayOffset\<close> field is the one kept in its id.
\<close>

fun first_maxTemp :: "matcher \<Rightarrow> search_result option list \<Rightarrow> js_error + real option" where
  "first_maxTemp rx [] = Inr None"
| "first_maxTemp rx (None # rest) = Inl TypeError"
| "first_maxTemp rx (Some r # rest) =
     (let text = toLowerCase (description r @ '' '' @ title r) in
      case rx Re_maximum_daytime text of Some n \<Rightarrow> Inr (Some n) | None \<Rightarrow>
      (case rx Re_high_of text of Some n \<Rightarrow> Inr (Some n) | None \<Rightarrow>
       (case rx Re_max_of text of Some n \<Rightarrow> Inr (Some n) | None \<Rightarrow>
        (case rx Re_degree text of Some n \<Rightarrow> Inr (Some n) | None \<Rightarrow> first_maxTemp rx rest))))"

definition scrapeForecast_search ::
  "matcher \<Rightarrow> station \<Rightarrow> scrape_site \<Rightarrow> nat \<Rightarrow> string \<Rightarrow> search_result option list fetched \<Rightarrow> source list" where
  "scrapeForecast_search rx cfg site dayOffset dateStr reply =
     (case reply of
        Inl e \<Rightarrow> []
      | Inr results \<Rightarrow>
          (case first_maxTemp rx results of
             Inl e \<Rightarrow> []
           | Inr None \<Rightarrow> []
           | Inr (Some n) \<Rightarrow>
               (let maxTemp = scrape_value (cfg_unit cfg) n in
                if maxTemp = Some 0 then []
                else [(new_source (ScrapedId (site_id site) (Some (int dayOffset)))
                         (Some (site_name site @ '' ('' @ (case js_nth dayLabels dayOffset of
                                   None \<Rightarrow> ''undefined'' | Some l \<Rightarrow> l) @ '')''))
                         Scraped)
                        \<lparr>temp_c := (if cfg_unit cfg = UnitC then maxTemp else fToC maxTemp),
                         temp_f := (if cfg_unit cfg = UnitF then maxTemp else cToF maxTemp),
                         src_date := Some dateStr, url := Some (site_url site)\<rparr>])))"

section \<open>The city card of the page\<close>

text \<open>
  Of \<^verbatim>\<open>createCityCard\<close> the model keeps what is computed: the temperatures collected,
  the average, its converted counterpart, and the spread with its class. The HTML built
  around them is left out.
\<close>

datatype spread_class = Tight | Medium | Wide

text \<open>
  What the card computes is \<^verbatim>\<open>null\<close> or a number, and the number can be an infinity
  when a sum or a difference overflows: \<open>Null\<close> is \<^verbatim>\<open>null\<close>, \<open>Val (Some x)\<close> the
  finite number \<open>x\<close>, \<open>Val None\<close> a number that is not finite.
\<close>

datatype 'a nullable = Null | Val 'a

record card =
  card_temps :: "real list"
  card_avg :: "js_num nullable"
  card_avgSecondary :: "js_num nullable"
  card_spread :: "(js_num \<times> spread_class) option"

text \<open>\<^verbatim>\<open>.filter(t => t != null)\<close>, and the loop that pushes a primary that is not null.\<close>

fun defined_values :: "js_num list \<Rightarrow> real list" where
  "defined_values [] = []"
| "defined_values (None # ts) = defined_values ts"
| "defined_values (Some t # ts) = t # defined_values ts"

text \<open>
  \<^verbatim>\<open>temps.length > 0 ? temps.reduce((a, b) => a + b, 0) / temps.length : null\<close>
\<close>

definition average :: "real list \<Rightarrow> js_num nullable" where
  "average temps =
     (if length temps > 0
      then Val (js_div (foldl (\<lambda>a b. js_add a b) (Some 0) temps) (real (length temps)))
      else Null)"

text \<open>\<^verbatim>\<open>Math.max(...temps)\<close> and \<^verbatim>\<open>Math.min(...temps)\<close> for \<open>temps = t # ts\<close>.\<close>

definition Math_max :: "real \<Rightarrow> real list \<Rightarrow> real" where
  "Math_max t ts = fold max ts t"

definition Math_min :: "real \<Rightarrow> real list \<Rightarrow> real" where
  "Math_min t ts = fold min ts t"

text \<open>
  \<^verbatim>\<open>spread <= 1.5 ? 'tight' : spread <= 3 ? 'medium' : 'wide'\<close>; a spread that
  overflowed is plus infinity, and neither comparison holds.
\<close>

definition spread_cls :: "js_num \<Rightarrow> spread_class" where
  "spread_cls spread =
     (case spread of None \<Rightarrow> Wide
      | Some x \<Rightarrow> if x \<le> 15 / 10 then Tight else if x \<le> 3 then Medium else Wide)"

text \<open>
  \<^verbatim>\<open>if (temps.length >= 2) { const spread = Math.max(...temps) - Math.min(...temps); ... }\<close>;
  otherwise \<^verbatim>\<open>spreadHtml\<close> stays empty.
\<close>

definition spread_of :: "real list \<Rightarrow> (js_num \<times> spread_class) option" where
  "spread_of temps =
     (case temps of
        t # t' # ts \<Rightarrow>
          (let spread = js_sub (Some (Math_max t (t' # ts))) (Math_min t (t' # ts))
           in Some (spread, spread_cls spread))
      | _ \<Rightarrow> None)"

text \<open>
  \<^verbatim>\<open>getPrimaryTemp(source, unit, dayIndex)\<close> of \<^verbatim>\<open>app.js\<close>. A day index beyond
  \<^verbatim>\<open>source.days\<close> reads \<^verbatim>\<open>undefined\<close>, which as a key of \<^verbatim>\<open>dailyMax\<close> is the
  string of that name.
\<close>

definition getPrimaryTemp :: "source \<Rightarrow> unit_t \<Rightarrow> nat \<Rightarrow> js_num" where
  "getPrimaryTemp source u dayIndex =
     (if src_type source = Model \<and> dailyMax source \<noteq> None \<and> days source \<noteq> None then
        (case dailyMax source of None \<Rightarrow> None | Some dm \<Rightarrow>
         (case days source of None \<Rightarrow> None | Some ds \<Rightarrow>
            (let dayKey = (case js_nth ds dayIndex of None \<Rightarrow> ''undefined'' | Some k \<Rightarrow> k)
             in case map_of dm dayKey of
                  None \<Rightarrow> None
                | Some entry \<Rightarrow> if u = UnitF then snd entry else fst entry)))
      else if src_type source = Forecast \<and> forecasts source \<noteq> None then
        (case forecasts source of None \<Rightarrow> None | Some fcs \<Rightarrow>
           (case js_nth fcs dayIndex of
              None \<Rightarrow> None
            | Some fc \<Rightarrow> if u = UnitF then fc_temp_f fc else fc_temp_c fc))
      else if dayIndex \<noteq> 0 then None
      else if u = UnitF then temp_f source else temp_c source)"

text \<open>
  The sources the card of \<^verbatim>\<open>app.js\<close> goes through: live first, then recorded, then
  forecast, then models. A source of another type is in none of the four filters.
\<close>

definition ordered :: "source list \<Rightarrow> source list" where
  "ordered sources =
     filter (\<lambda>s. src_type s = Live) sources @ filter (\<lambda>s. src_type s = Recorded) sources
     @ filter (\<lambda>s. src_type s = Forecast) sources @ filter (\<lambda>s. src_type s = Model) sources"

text \<open>\<^verbatim>\<open>createCityCard(data)\<close> of \<^verbatim>\<open>app.js\<close>, with the global \<^verbatim>\<open>selectedDay\<close>.\<close>

definition createCityCard_v2 :: "report \<Rightarrow> nat \<Rightarrow> card" where
  "createCityCard_v2 d selectedDay =
     (let temps = defined_values
                    (map (\<lambda>src. getPrimaryTemp src (r_unit d) selectedDay) (ordered (r_sources d)));
          avg = average temps
      in \<lparr>card_temps = temps, card_avg = avg,
          card_avgSecondary =
            (case avg of Null \<Rightarrow> Null
             | Val a \<Rightarrow> Val (if r_unit d = UnitF then fToC a else cToF a)),
          card_spread = spread_of temps\<rparr>)"

text \<open>
  \<^verbatim>\<open>createCityCard(data)\<close> of the on-demand page: the report is already the one of the
  selected day, and every source is read by its flat fields. The other unit of the
  average is \<^verbatim>\<open>(avg - 32) * 5/9\<close> or \<^verbatim>\<open>avg * 9/5 + 32\<close>, not rounded to a decimal.
\<close>

definition createCityCard :: "report \<Rightarrow> card" where
  "createCityCard d =
     (let temps = defined_values
                    (map (\<lambda>s. if r_unit d = UnitF then temp_f s else temp_c s) (r_sources d));
          avg = average temps
      in \<lparr>card_temps = temps, card_avg = avg,
          card_avgSecondary =
            (case avg of Null \<Rightarrow> Null
             | Val a \<Rightarrow> Val (if r_unit d = UnitF then js_div (js_mul (js_sub a 32) 5) 9
                            else js_add (js_div (js_mul a 9) 5) 32)),
          card_spread = spread_of temps\<rparr>)"

section \<open>Properties stated in the words of the specification\<close>


text \<open>
  The arithmetic mean of a list of values, and "no data" for the empty list. The sum and
  the quotient are those of the numbers of the program: the values are added from the
  first to the last, each partial sum being a double, and the sum is divided by the
  number of values. \<open>exact_mean\<close> is the mean of the same values in the real numbers.
\<close>

fun sum_from :: "js_num \<Rightarrow> real list \<Rightarrow> js_num" where
  "sum_from a [] = a"
| "sum_from a (v # vs) = sum_from (js_add a v) vs"

definition mean_of :: "real list \<Rightarrow> js_num nullable" where
  "mean_of vs = (if vs = [] then Null else Val (js_div (sum_from (Some 0) vs) (real (length vs))))"

definition exact_mean :: "real list \<Rightarrow> real" where
  "exact_mean vs = sum_list vs / real (length vs)"

text \<open>
  A key is absent from the cache at a request time when it has no entry, or an entry that
  is five minutes old or older.
\<close>

definition cache_miss :: "cache \<Rightarrow> cache_key \<Rightarrow> int \<Rightarrow> bool" where
  "cache_miss CACHE k now =
     (case CACHE k of None \<Rightarrow> True | Some entry \<Rightarrow> c_ts entry + 5 * 60 * 1000 \<le> now)"

text \<open>The scrape sequence of a list of targets: for each, the pause and then its search.\<close>

definition scrape_sequence :: "station \<Rightarrow> int option \<Rightarrow> int \<Rightarrow> scrape_site list \<Rightarrow> event list" where
  "scrape_sequence cfg dayOffset dateStr sites =
     concat (map (\<lambda>site. [Delay 1500, Search (site_query cfg dayOffset dateStr site)]) sites)"

text \<open>
  What a scrape sequence finds: for each target, in order, the source that the answer to
  its search gives, if it gives one.
\<close>

definition scrape_result ::
  "matcher \<Rightarrow> station \<Rightarrow> int option \<Rightarrow> int \<Rightarrow> searcher \<Rightarrow> scrape_site list \<Rightarrow> source list" where
  "scrape_result rx cfg dayOffset dateStr brave sites =
     concat (map (\<lambda>site. scrape_site_results rx cfg dayOffset site
                            (brave (site_query cfg dayOffset dateStr site))) sites)"

text \<open>
  A temperature pair agrees with the converter when one field is the conversion of the
  other; a pair with a missing field has nothing to agree on.
\<close>

definition pair_converted :: "js_num \<times> js_num \<Rightarrow> bool" where
  "pair_converted p =
     (case p of (Some c, Some f) \<Rightarrow> cToF (Some c) = Some f \<or> fToC (Some f) = Some c
      | _ \<Rightarrow> True)"

text \<open>Both fields are roundings of one raw Celsius reading.\<close>

definition round10 :: "js_num \<Rightarrow> js_num" where
  "round10 x = js_div (js_round (js_mul x 10)) 10"

definition pair_of_reading :: "real \<Rightarrow> js_num \<times> js_num \<Rightarrow> bool" where
  "pair_of_reading v p = (p = (round10 (Some v), cToF (Some v)))"

text \<open>Every temperature pair a source carries: its flat fields, its forecasts, its days.\<close>

definition pairs_of :: "source \<Rightarrow> (js_num \<times> js_num) list" where
  "pairs_of s =
     (temp_c s, temp_f s)
     # (case forecasts s of None \<Rightarrow> [] | Some fcs \<Rightarrow> map (\<lambda>fc. (fc_temp_c fc, fc_temp_f fc)) fcs)
     @ (case dailyMax s of None \<Rightarrow> [] | Some dm \<Rightarrow> map snd dm)"

text \<open>
  The spread in the words of the specification: defined from two values on, the largest
  minus the smallest, tight up to 1.5, medium above 1.5 and up to 3, wide above 3. The
  difference is the one of the numbers of the program, the double nearest to the exact
  difference; beyond the largest double it is plus infinity, which is above 3.
\<close>

definition spread_class_spec :: "js_num \<Rightarrow> spread_class" where
  "spread_class_spec s =
     (case s of None \<Rightarrow> Wide
      | Some x \<Rightarrow> if x \<le> 15 / 10 then Tight else if 15 / 10 < x \<and> x \<le> 3 then Medium else Wide)"

definition spread_spec :: "real list \<Rightarrow> (js_num \<times> spread_class) option" where
  "spread_spec vs =
     (if 2 \<le> length vs
      then Some (fl (Max (set vs) - Min (set vs)), spread_class_spec (fl (Max (set vs) - Min (set vs))))
      else None)"

text \<open>
  What an adapter produces from the answer of its provider: the sources that its handler
  builds from an answer that arrived, and nothing when the fetch was rejected. The
  adapters of \<^verbatim>\<open>server.js\<close> for a station are the METAR one, the two of the NWS where
  the station has an NWS station and a grid, Open-Meteo, IEM where the station has a
  network, and the two page scrapes where it has their URLs.
\<close>

definition produced :: "('a \<Rightarrow> source list) \<Rightarrow> 'a fetched \<Rightarrow> source list" where
  "produced adapter answer = (case answer of Inr d \<Rightarrow> adapter d | Inl e \<Rightarrow> [])"

definition produced_v2 :: "matcher \<Rightarrow> station \<Rightarrow> world_v2 \<Rightarrow> source list" where
  "produced_v2 rx cfg w =
     produced metar_handler (w_metar w)
     @ (if truthy (nwsStation cfg) then produced nws_obs_handler (w_nws_obs w) else [])
     @ (if nwsGrid cfg \<noteq> None then produced nws_forecast_handler (w_nws_forecast w) else [])
     @ produced (open_meteo_handler cfg) (w_open_meteo w)
     @ (if truthy (iemNetwork cfg) then produced iem_handler (w_iem w) else [])
     @ (if truthy (metOfficeUrl cfg) then produced (metoffice_handler rx) (w_metoffice w) else [])
     @ (if truthy (wuUrl cfg) then produced (wu_handler rx cfg) (w_wu w) else [])"

text \<open>Every provider of \<^verbatim>\<open>server.js\<close> fails; and a world in which they all do.\<close>

definition all_failed_v2 :: "world_v2 \<Rightarrow> bool" where
  "all_failed_v2 w =
     (isl (w_metar w) \<and> isl (w_nws_obs w) \<and> isl (w_nws_forecast w) \<and> isl (w_open_meteo w)
      \<and> isl (w_iem w) \<and> isl (w_metoffice w) \<and> isl (w_wu w))"

definition down_v2 :: world_v2 where
  "down_v2 =
     \<lparr>w_metar = Inl FetchError, w_nws_obs = Inl FetchError, w_nws_forecast = Inl FetchError,
      w_open_meteo = Inl FetchError, w_iem = Inl FetchError, w_metoffice = Inl FetchError,
      w_wu = Inl FetchError\<rparr>"









section \<open>The arithmetic of doubles\<close>

text \<open>The facts that evaluate the arithmetic on given numbers.\<close>

lemmas number_eval =
  fl_def round_to_def finite_only_def floor_rest_def nearest_even_def ilog2_def round_even_def
  pow2_def compute_bitlen Let_def js_add_def js_sub_def js_mul_def js_div_def js_round_def
  Math_round_def cToF_def fToC_def

lemma pow2_powi: "pow2 e = 2 powi e"
  by (simp add: pow2_def power_int_def power_one_over [symmetric] inverse_eq_divide)

lemma pow2_pos: "0 < pow2 e"
  by (simp add: pow2_powi)

lemma pow2_mono: "a \<le> b \<Longrightarrow> pow2 a \<le> pow2 b"
  unfolding pow2_powi by (rule power_int_increasing) simp_all

lemma pow2_diff: "pow2 (a - b) = pow2 a / pow2 b"
  unfolding pow2_powi by (rule power_int_diff) simp

lemma pow2_nat: "pow2 (int n) = 2 ^ n"
  by (simp add: pow2_def)

lemma ilog2_lower:
  assumes "0 < a"
  shows "pow2 (ilog2 a) \<le> a"
proof (cases "1 \<le> a")
  case True
  then have n: "0 < \<lfloor>a\<rfloor>" by linarith
  have b: "1 \<le> bitlen \<lfloor>a\<rfloor>"
    using n by (simp add: bitlen_alt_def)
  have "(2::int) ^ nat (bitlen \<lfloor>a\<rfloor> - 1) \<le> \<lfloor>a\<rfloor>"
    using bitlen_bounds [OF n] by simp
  then have "real_of_int (2 ^ nat (bitlen \<lfloor>a\<rfloor> - 1)) \<le> real_of_int \<lfloor>a\<rfloor>"
    by (simp only: of_int_le_iff)
  moreover have "real_of_int (2 ^ nat (bitlen \<lfloor>a\<rfloor> - 1)) = 2 ^ nat (bitlen \<lfloor>a\<rfloor> - 1)"
    by simp
  ultimately have "(2::real) ^ nat (bitlen \<lfloor>a\<rfloor> - 1) \<le> real_of_int \<lfloor>a\<rfloor>"
    by linarith
  then have "(2::real) ^ nat (bitlen \<lfloor>a\<rfloor> - 1) \<le> a"
    by linarith
  moreover have "pow2 (bitlen \<lfloor>a\<rfloor> - 1) = 2 ^ nat (bitlen \<lfloor>a\<rfloor> - 1)"
    using b by (simp add: pow2_def)
  ultimately show ?thesis
    using True by (simp add: ilog2_def)
next
  case False
  with assms have a: "0 < a" "a < 1" by simp_all
  define m where "m = \<lceil>1 / a\<rceil>"
  have i: "1 < 1 / a" using a by simp
  then have m2: "0 < m - 1" unfolding m_def by linarith
  have le: "1 / a \<le> real_of_int m" unfolding m_def by linarith
  have "m - 1 < 2 ^ nat (bitlen (m - 1))"
    using bitlen_bounds [OF m2] by simp
  then have "m \<le> 2 ^ nat (bitlen (m - 1))" by linarith
  then have "real_of_int m \<le> real_of_int (2 ^ nat (bitlen (m - 1)))"
    by (simp only: of_int_le_iff)
  also have "real_of_int (2 ^ nat (bitlen (m - 1))) = 2 ^ nat (bitlen (m - 1))"
    by simp
  finally have "1 / a \<le> 2 ^ nat (bitlen (m - 1))"
    using le by linarith
  then have "1 / 2 ^ nat (bitlen (m - 1)) \<le> a"
    using a(1) by (simp add: field_simps)
  moreover have "pow2 (- bitlen (m - 1)) = 1 / 2 ^ nat (bitlen (m - 1))"
    using bitlen_nonneg [of "m - 1"] by (cases "bitlen (m - 1) = 0") (simp_all add: pow2_def)
  ultimately show ?thesis
    using False by (simp add: ilog2_def m_def)
qed

lemma round_even_near: "\<bar>real_of_int (round_even z) - z\<bar> \<le> 1 / 2"
  unfolding round_even_def floor_rest_def nearest_even_def by (auto; linarith)

lemma round_to_near:
  assumes "0 < u"
  shows "\<bar>real_of_int (round_even (x / u)) * u - x\<bar> \<le> u / 2"
proof -
  have "real_of_int (round_even (x / u)) * u - x = (real_of_int (round_even (x / u)) - x / u) * u"
    using assms by (simp add: left_diff_distrib)
  then have "\<bar>real_of_int (round_even (x / u)) * u - x\<bar>
          = \<bar>real_of_int (round_even (x / u)) - x / u\<bar> * u"
    using assms by (simp add: abs_mult)
  also have "\<dots> \<le> 1 / 2 * u"
    using assms round_even_near [of "x / u"] by (intro mult_right_mono) simp_all
  finally show ?thesis by simp
qed

text \<open>Below 2 to the 35, rounding to a double moves a value by at most 2 to the -18.\<close>

lemma fl_near:
  assumes "\<bar>x\<bar> \<le> 2 ^ 35"
  shows "\<exists>y. fl x = Some y \<and> \<bar>y - x\<bar> \<le> 1 / 2 ^ 18"
proof (cases "x = 0")
  case True
  then show ?thesis by (simp add: fl_def)
next
  case False
  define u where "u = pow2 (max (ilog2 \<bar>x\<bar> - 52) (- 1074))"
  define y where "y = real_of_int (round_even (x / u)) * u"
  have upos: "0 < u" unfolding u_def by (rule pow2_pos)
  have "u \<le> 1 / 2 ^ 17"
  proof (cases "ilog2 \<bar>x\<bar> - 52 \<le> - 1074")
    case True
    then have "u = pow2 (- 1074)" by (simp add: u_def max_def)
    also have "\<dots> \<le> pow2 (- 17)" by (rule pow2_mono) simp
    also have "\<dots> = 1 / 2 ^ 17" by (simp add: pow2_def)
    finally show ?thesis .
  next
    case False
    then have "u = pow2 (ilog2 \<bar>x\<bar> - 52)" by (simp add: u_def max_def)
    also have "\<dots> = pow2 (ilog2 \<bar>x\<bar>) / pow2 52" by (rule pow2_diff)
    also have "\<dots> \<le> \<bar>x\<bar> / pow2 52"
      using ilog2_lower [of "\<bar>x\<bar>"] \<open>x \<noteq> 0\<close> pow2_pos [of 52]
      by (intro divide_right_mono) simp_all
    also have "\<dots> \<le> 2 ^ 35 / pow2 52"
      using assms pow2_pos [of 52] by (intro divide_right_mono) simp_all
    also have "\<dots> = 1 / 2 ^ 17" by (simp add: pow2_def)
    finally show ?thesis .
  qed
  moreover have "\<bar>y - x\<bar> \<le> u / 2"
    unfolding y_def using upos by (rule round_to_near)
  ultimately have n: "\<bar>y - x\<bar> \<le> 1 / 2 ^ 18" by simp
  have "\<bar>y\<bar> \<le> \<bar>x\<bar> + \<bar>y - x\<bar>" by linarith
  moreover have "1 / 2 ^ 18 \<le> (1::real)" by simp
  ultimately have "\<bar>y\<bar> \<le> 2 ^ 35 + 1" using assms n by linarith
  also have "\<dots> < (2::real) ^ 1024" by simp
  finally have "finite_only y = Some y" by (simp add: finite_only_def)
  then have "fl x = Some y"
    using False by (simp add: fl_def round_to_def u_def y_def)
  with n show ?thesis by blast
qed

text \<open>
  Some numbers: the doubles that the literals 0.1 and 32.29 denote, and two conversions
  in which the exact result before \<^verbatim>\<open>Math.round\<close> is a half and the rounded one is
  not.
\<close>

lemma fl_examples:
  "fl (1 / 10) = Some (3602879701896397 / 36028797018963968)"
  "fl (3229 / 100) = Some (4544413498993541 / 140737488355328)"
  "fl 20 = Some 20"
  by (simp_all add: number_eval)

lemma converter_examples:
  "cToF (Some 20) = Some 68"
  "fToC (Some 68) = Some 20"
  "cToF (fl (- 2325 / 100)) = fl (- 99 / 10)"
  "fToC (fl (1229 / 100)) = Some (- 11)"
  by (simp_all add: number_eval)

section \<open>The unit converter\<close>

lemma fl_step:
  assumes "\<bar>x\<bar> \<le> 34359738368"
  obtains y where "fl x = Some y" "\<bar>y - x\<bar> \<le> 1 / 262144"
proof -
  have "\<bar>x\<bar> \<le> 2 ^ 35" using assms by simp
  from fl_near [OF this] obtain y where "fl x = Some y" "\<bar>y - x\<bar> \<le> 1 / 2 ^ 18" by blast
  then show thesis using that by simp
qed

lemma Math_round_lower: "x - 1 / 2 < real_of_int (Math_round x)"
  unfolding Math_round_def by linarith

lemma Math_round_upper: "real_of_int (Math_round x) \<le> x + 1 / 2"
  unfolding Math_round_def by linarith

lemma cToF_near:
  assumes "\<bar>c\<bar> \<le> 1500000000"
  obtains F where "cToF (Some c) = Some F" "\<bar>F - (c * 9 / 5 + 32)\<bar> \<le> 501 / 10000"
proof -
  have "\<bar>c * 9\<bar> \<le> 34359738368" using assms by argo
  then obtain a1 where a1: "fl (c * 9) = Some a1" "\<bar>a1 - c * 9\<bar> \<le> 1 / 262144"
    by (rule fl_step)
  have "\<bar>a1 / 5\<bar> \<le> 34359738368" using assms a1(2) by argo
  then obtain a2 where a2: "fl (a1 / 5) = Some a2" "\<bar>a2 - a1 / 5\<bar> \<le> 1 / 262144"
    by (rule fl_step)
  have "\<bar>a2 + 32\<bar> \<le> 34359738368" using assms a1(2) a2(2) by argo
  then obtain a3 where a3: "fl (a2 + 32) = Some a3" "\<bar>a3 - (a2 + 32)\<bar> \<le> 1 / 262144"
    by (rule fl_step)
  have "\<bar>a3 * 10\<bar> \<le> 34359738368" using assms a1(2) a2(2) a3(2) by argo
  then obtain a4 where a4: "fl (a3 * 10) = Some a4" "\<bar>a4 - a3 * 10\<bar> \<le> 1 / 262144"
    by (rule fl_step)
  define n where "n = real_of_int (Math_round a4)"
  have n: "a4 - 1 / 2 < n" "n \<le> a4 + 1 / 2"
    unfolding n_def by (rule Math_round_lower, rule Math_round_upper)
  have "\<bar>n / 10\<bar> \<le> 34359738368" using assms a1(2) a2(2) a3(2) a4(2) n by argo
  then obtain F where F: "fl (n / 10) = Some F" "\<bar>F - n / 10\<bar> \<le> 1 / 262144"
    by (rule fl_step)
  have "cToF (Some c) = Some F"
    by (simp add: cToF_def js_mul_def js_div_def js_add_def js_round_def a1 a2 a3 a4 F n_def [symmetric])
  moreover have "\<bar>F - (c * 9 / 5 + 32)\<bar> \<le> 501 / 10000"
    using a1(2) a2(2) a3(2) a4(2) n F(2) by argo
  ultimately show thesis using that by blast
qed

lemma fToC_near:
  assumes "\<bar>f\<bar> \<le> 4000000000"
  obtains C where "fToC (Some f) = Some C" "\<bar>C - (f - 32) * 5 / 9\<bar> \<le> 501 / 10000"
proof -
  have "\<bar>f - 32\<bar> \<le> 34359738368" using assms by argo
  then obtain a1 where a1: "fl (f - 32) = Some a1" "\<bar>a1 - (f - 32)\<bar> \<le> 1 / 262144"
    by (rule fl_step)
  have "\<bar>a1 * 5\<bar> \<le> 34359738368" using assms a1(2) by argo
  then obtain a2 where a2: "fl (a1 * 5) = Some a2" "\<bar>a2 - a1 * 5\<bar> \<le> 1 / 262144"
    by (rule fl_step)
  have "\<bar>a2 / 9\<bar> \<le> 34359738368" using assms a1(2) a2(2) by argo
  then obtain a3 where a3: "fl (a2 / 9) = Some a3" "\<bar>a3 - a2 / 9\<bar> \<le> 1 / 262144"
    by (rule fl_step)
  have "\<bar>a3 * 10\<bar> \<le> 34359738368" using assms a1(2) a2(2) a3(2) by argo
  then obtain a4 where a4: "fl (a3 * 10) = Some a4" "\<bar>a4 - a3 * 10\<bar> \<le> 1 / 262144"
    by (rule fl_step)
  define n where "n = real_of_int (Math_round a4)"
  have n: "a4 - 1 / 2 < n" "n \<le> a4 + 1 / 2"
    unfolding n_def by (rule Math_round_lower, rule Math_round_upper)
  have "\<bar>n / 10\<bar> \<le> 34359738368" using assms a1(2) a2(2) a3(2) a4(2) n by argo
  then obtain C where C: "fl (n / 10) = Some C" "\<bar>C - n / 10\<bar> \<le> 1 / 262144"
    by (rule fl_step)
  have "fToC (Some f) = Some C"
    by (simp add: fToC_def js_mul_def js_div_def js_sub_def js_round_def a1 a2 a3 a4 C n_def [symmetric])
  moreover have "\<bar>C - (f - 32) * 5 / 9\<bar> \<le> 501 / 10000"
    using a1(2) a2(2) a3(2) a4(2) n C(2) by argo
  ultimately show thesis using that by blast
qed

lemma fToC_cToF_near:
  assumes "\<bar>c\<bar> \<le> 1000000000"
  shows "\<exists>r. fToC (cToF (Some c)) = Some r \<and> \<bar>r - c\<bar> \<le> 1 / 10"
proof -
  have "\<bar>c\<bar> \<le> 1500000000" using assms by simp
  then obtain F where F: "cToF (Some c) = Some F" "\<bar>F - (c * 9 / 5 + 32)\<bar> \<le> 501 / 10000"
    by (rule cToF_near)
  have "\<bar>F\<bar> \<le> 4000000000" using assms F(2) by argo
  then obtain r where r: "fToC (Some F) = Some r" "\<bar>r - (F - 32) * 5 / 9\<bar> \<le> 501 / 10000"
    by (rule fToC_near)
  have "\<bar>r - c\<bar> \<le> 1 / 10" using F(2) r(2) by argo
  with F(1) r(1) show ?thesis by simp
qed

lemma fToC_tenth:
  assumes "\<bar>f\<bar> \<le> 4000000000"
  obtains k C where "fToC (Some f) = Some C" "\<bar>C - real_of_int k / 10\<bar> \<le> 1 / 262144"
    "\<bar>real_of_int k / 10 - (f - 32) * 5 / 9\<bar> \<le> 501 / 10000"
proof -
  have "\<bar>f - 32\<bar> \<le> 34359738368" using assms by argo
  then obtain a1 where a1: "fl (f - 32) = Some a1" "\<bar>a1 - (f - 32)\<bar> \<le> 1 / 262144"
    by (rule fl_step)
  have "\<bar>a1 * 5\<bar> \<le> 34359738368" using assms a1(2) by argo
  then obtain a2 where a2: "fl (a1 * 5) = Some a2" "\<bar>a2 - a1 * 5\<bar> \<le> 1 / 262144"
    by (rule fl_step)
  have "\<bar>a2 / 9\<bar> \<le> 34359738368" using assms a1(2) a2(2) by argo
  then obtain a3 where a3: "fl (a2 / 9) = Some a3" "\<bar>a3 - a2 / 9\<bar> \<le> 1 / 262144"
    by (rule fl_step)
  have "\<bar>a3 * 10\<bar> \<le> 34359738368" using assms a1(2) a2(2) a3(2) by argo
  then obtain a4 where a4: "fl (a3 * 10) = Some a4" "\<bar>a4 - a3 * 10\<bar> \<le> 1 / 262144"
    by (rule fl_step)
  define n where "n = real_of_int (Math_round a4)"
  have n: "a4 - 1 / 2 < n" "n \<le> a4 + 1 / 2"
    unfolding n_def by (rule Math_round_lower, rule Math_round_upper)
  have "\<bar>n / 10\<bar> \<le> 34359738368" using assms a1(2) a2(2) a3(2) a4(2) n by argo
  then obtain C where C: "fl (n / 10) = Some C" "\<bar>C - n / 10\<bar> \<le> 1 / 262144"
    by (rule fl_step)
  have "fToC (Some f) = Some C"
    by (simp add: fToC_def js_mul_def js_div_def js_sub_def js_round_def a1 a2 a3 a4 C n_def [symmetric])
  moreover have "\<bar>C - real_of_int (Math_round a4) / 10\<bar> \<le> 1 / 262144"
    using C(2) by (simp add: n_def)
  moreover have "\<bar>n / 10 - (f - 32) * 5 / 9\<bar> \<le> 501 / 10000"
    using a1(2) a2(2) a3(2) a4(2) n by argo
  then have "\<bar>real_of_int (Math_round a4) / 10 - (f - 32) * 5 / 9\<bar> \<le> 501 / 10000"
    by (simp add: n_def)
  ultimately show thesis using that by blast
qed

lemma tenth_to_F:
  fixes k :: int
  shows "10 * ((18 * k + 3205) div 10) + 1 \<le> 18 * k + 3205 \<and>
    18 * k + 3205 \<le> 10 * ((18 * k + 3205) div 10) + 9"
  by presburger

lemma cToF_tenth:
  assumes "\<bar>C\<bar> \<le> 1500000000" and "\<bar>C - real_of_int k / 10\<bar> \<le> 1 / 262144"
  obtains F where "cToF (Some C) = Some F"
    "\<bar>F - (real_of_int k / 10 * 9 / 5 + 32)\<bar> \<le> 401 / 10000"
proof -
  have "\<bar>C * 9\<bar> \<le> 34359738368" using assms(1) by argo
  then obtain a1 where a1: "fl (C * 9) = Some a1" "\<bar>a1 - C * 9\<bar> \<le> 1 / 262144"
    by (rule fl_step)
  have "\<bar>a1 / 5\<bar> \<le> 34359738368" using assms(1) a1(2) by argo
  then obtain a2 where a2: "fl (a1 / 5) = Some a2" "\<bar>a2 - a1 / 5\<bar> \<le> 1 / 262144"
    by (rule fl_step)
  have "\<bar>a2 + 32\<bar> \<le> 34359738368" using assms(1) a1(2) a2(2) by argo
  then obtain a3 where a3: "fl (a2 + 32) = Some a3" "\<bar>a3 - (a2 + 32)\<bar> \<le> 1 / 262144"
    by (rule fl_step)
  have "\<bar>a3 * 10\<bar> \<le> 34359738368" using assms(1) a1(2) a2(2) a3(2) by argo
  then obtain a4 where a4: "fl (a3 * 10) = Some a4" "\<bar>a4 - a3 * 10\<bar> \<le> 1 / 262144"
    by (rule fl_step)
  define m where "m = (18 * k + 3205) div 10"
  define K where "K = real_of_int k"
  define M where "M = real_of_int m"
  have "real_of_int (10 * m + 1) \<le> real_of_int (18 * k + 3205)"
    and "real_of_int (18 * k + 3205) \<le> real_of_int (10 * m + 9)"
    unfolding m_def using tenth_to_F [of k] by (simp_all only: of_int_le_iff)
  then have m: "10 * M + 1 \<le> 18 * K + 3205" "18 * K + 3205 \<le> 10 * M + 9"
    by (simp_all add: K_def M_def)
  have near: "\<bar>a4 - (18 * K + 3200) / 10\<bar> \<le> 1 / 100"
    using assms(2) a1(2) a2(2) a3(2) a4(2) unfolding K_def by argo
  have "M \<le> a4 + 1 / 2" "a4 + 1 / 2 < M + 1" using m near by argo+
  then have "\<lfloor>a4 + 1 / 2\<rfloor> = m" unfolding M_def by linarith
  then have round: "real_of_int (Math_round a4) = M" by (simp add: Math_round_def M_def)
  have "\<bar>M / 10\<bar> \<le> 34359738368" using assms m unfolding K_def by argo
  then obtain F where F: "fl (M / 10) = Some F" "\<bar>F - M / 10\<bar> \<le> 1 / 262144"
    by (rule fl_step)
  have "cToF (Some C) = Some F"
    by (simp add: cToF_def js_mul_def js_div_def js_add_def js_round_def a1 a2 a3 a4 F round)
  moreover have "\<bar>F - (K / 10 * 9 / 5 + 32)\<bar> \<le> 401 / 10000" using m F(2) by argo
  ultimately show thesis using that unfolding K_def by blast
qed

lemma cToF_fToC_near:
  assumes "\<bar>f\<bar> \<le> 1000000000"
  shows "\<exists>r. cToF (fToC (Some f)) = Some r \<and> \<bar>r - f\<bar> \<le> 14 / 100"
proof -
  have "\<bar>f\<bar> \<le> 4000000000" using assms by simp
  then obtain k C where C: "fToC (Some f) = Some C" "\<bar>C - real_of_int k / 10\<bar> \<le> 1 / 262144"
    "\<bar>real_of_int k / 10 - (f - 32) * 5 / 9\<bar> \<le> 501 / 10000"
    by (rule fToC_tenth)
  have "\<bar>C\<bar> \<le> 1500000000" using assms C(2,3) by argo
  from this C(2) obtain r where r: "cToF (Some C) = Some r"
    "\<bar>r - (real_of_int k / 10 * 9 / 5 + 32)\<bar> \<le> 401 / 10000"
    by (rule cToF_tenth)
  have "\<bar>r - f\<bar> \<le> 14 / 100" using C(3) r(2) by argo
  with C(1) r(1) show ?thesis by simp
qed

text \<open>
  Beyond the range of the theorem the Celsius round trip leaves the tolerance: near
  9.7e14 the doubles are an eighth apart, and the value comes back an eighth higher.
\<close>

lemma celsius_round_trip_beyond:
  "fToC (cToF (Some (7760000000000001 / 8))) = Some (7760000000000002 / 8)"
  by (simp add: number_eval)

text \<open>
  C7, as the converters behave on temperatures of magnitude up to 10 to the 9: from
  Celsius to Fahrenheit and back, the result is a number within 0.1 of the input; from
  Fahrenheit to Celsius and back, it is a number within 0.14 of the input, and 0.1 is not
  a bound.
\<close>

theorem C7_round_trip:
  assumes "\<bar>c\<bar> \<le> 1000000000" and "\<bar>f\<bar> \<le> 1000000000"
  shows "(\<exists>r. fToC (cToF (Some c)) = Some r \<and> \<bar>r - c\<bar> \<le> 1 / 10)
       \<and> (\<exists>r. cToF (fToC (Some f)) = Some r \<and> \<bar>r - f\<bar> \<le> 14 / 100)"
  using fToC_cToF_near [OF assms(1)] cToF_fToC_near [OF assms(2)] by blast

text \<open>C7 at 20 degrees Celsius and at 68 degrees Fahrenheit.\<close>

theorem C7_witness:
  "(\<exists>r. fToC (cToF (Some 20)) = Some r \<and> \<bar>r - 20\<bar> \<le> 1 / 10)
   \<and> (\<exists>r. cToF (fToC (Some 68)) = Some r \<and> \<bar>r - 68\<bar> \<le> 14 / 100)"
  using C7_round_trip [of 20 68] by simp

text \<open>
  C7 as stated fails for the Fahrenheit input 32.29, the double 4544413498993541 / 2^47:
  it converts to 0.2 Celsius, which converts back to 32.4, the double
  4559894622712627 / 2^47, at a distance of more than 0.1.
\<close>

theorem C7_fahrenheit_counterexample:
  "fl (3229 / 100) = Some (4544413498993541 / 140737488355328)
   \<and> cToF (fToC (Some (4544413498993541 / 140737488355328)))
       = Some (4559894622712627 / 140737488355328)
   \<and> \<not> \<bar>4559894622712627 / 140737488355328 - 4544413498993541 / 140737488355328\<bar>
         \<le> (1 / 10 :: real)"
  by (simp add: number_eval)

section \<open>The scrape cache\<close>

lemma scrape_loop_events:
  "fst (scrape_loop rx cfg dayOffset dateStr brave sites) = scrape_sequence cfg dayOffset dateStr sites"
  by (induction sites) (auto simp: scrape_sequence_def Let_def split: prod.splits)

lemma searches_scrape_sequence:
  "searches (scrape_sequence cfg dayOffset dateStr sites) = map (site_query cfg dayOffset dateStr) sites"
  by (induction sites) (simp_all add: scrape_sequence_def searches_def)

lemma delays_scrape_sequence:
  "delays (scrape_sequence cfg dayOffset dateStr sites) = replicate (length sites) 1500"
  by (induction sites) (simp_all add: scrape_sequence_def delays_def)

lemma scrape_loop_result:
  "snd (scrape_loop rx cfg dayOffset dateStr brave sites)
     = scrape_result rx cfg dayOffset dateStr brave sites"
  by (induction sites) (simp_all add: scrape_result_def Let_def split_beta)

lemma scrapeForecastForDay_miss:
  assumes "scrapperUrls cfg = Some sites"
    and "toISOString_date (setDate_plus (t_new clk) dayOffset) = Inr dateStr"
    and "cache_miss CACHE (displayName cfg, dayOffset, dateStr) (t_check clk)"
  shows "scrapeForecastForDay rx cfg dayOffset clk brave CACHE
           = Inr (snd (scrape_loop rx cfg dayOffset dateStr brave sites),
                  CACHE((displayName cfg, dayOffset, dateStr) \<mapsto>
                    \<lparr>c_ts = t_store clk, c_data = snd (scrape_loop rx cfg dayOffset dateStr brave sites)\<rparr>),
                  scrape_sequence cfg dayOffset dateStr sites)"
proof -
  have b: "scrape_begin cfg dayOffset (t_new clk) (t_check clk) CACHE
             = Inr (Pending (displayName cfg, dayOffset, dateStr) dateStr sites)"
    using assms by (auto simp: scrape_begin_def cache_miss_def CACHE_TTL_def Let_def split: option.splits)
  show ?thesis
    unfolding scrapeForecastForDay_def b
    by (simp add: split_beta scrape_finish_def scrape_loop_events)
qed

lemma scrapeForecastForDay_hit:
  assumes "scrapperUrls cfg = Some sites"
    and "toISOString_date (setDate_plus (t_new clk) dayOffset) = Inr dateStr"
    and "CACHE (displayName cfg, dayOffset, dateStr) = Some entry"
    and "t_check clk < c_ts entry + 5 * 60 * 1000"
  shows "scrapeForecastForDay rx cfg dayOffset clk brave CACHE = Inr (c_data entry, CACHE, [])"
proof -
  have b: "scrape_begin cfg dayOffset (t_new clk) (t_check clk) CACHE = Inr (Done (c_data entry))"
    using assms by (simp add: scrape_begin_def CACHE_TTL_def Let_def)
  show ?thesis
    unfolding scrapeForecastForDay_def b by simp
qed

text \<open>
  C4: when the cache holds an entry stored at time \<open>T\<close> under the key of a resolve, a
  request time before \<open>T\<close> plus five minutes returns the stored list, leaves the cache as
  it is and does nothing outside (no pause, no search). A request time of \<open>T\<close> plus five
  minutes or later runs the whole scrape sequence, returns what this sequence finds and
  stores it under the key, whatever the stored list was: the call does what it does on the
  cache without the entry.
\<close>

theorem C4_cache_ttl:
  assumes "scrapperUrls cfg = Some sites"
    and "toISOString_date (setDate_plus (t_new clk) dayOffset) = Inr dateStr"
    and "CACHE (displayName cfg, dayOffset, dateStr) = Some \<lparr>c_ts = T, c_data = stored\<rparr>"
  shows "(t_check clk < T + 5 * 60 * 1000 \<longrightarrow>
           scrapeForecastForDay rx cfg dayOffset clk brave CACHE = Inr (stored, CACHE, []))
       \<and> (T + 5 * 60 * 1000 \<le> t_check clk \<longrightarrow>
           scrapeForecastForDay rx cfg dayOffset clk brave CACHE
             = Inr (scrape_result rx cfg dayOffset dateStr brave sites,
                    CACHE((displayName cfg, dayOffset, dateStr) \<mapsto>
                      \<lparr>c_ts = t_store clk,
                       c_data = scrape_result rx cfg dayOffset dateStr brave sites\<rparr>),
                    scrape_sequence cfg dayOffset dateStr sites)
         \<and> scrapeForecastForDay rx cfg dayOffset clk brave CACHE
             = scrapeForecastForDay rx cfg dayOffset clk brave
                 (CACHE((displayName cfg, dayOffset, dateStr) := None)))"
proof (intro conjI impI)
  assume "t_check clk < T + 5 * 60 * 1000"
  then show "scrapeForecastForDay rx cfg dayOffset clk brave CACHE = Inr (stored, CACHE, [])"
    using assms scrapeForecastForDay_hit [of cfg sites clk dayOffset dateStr CACHE
        "\<lparr>c_ts = T, c_data = stored\<rparr>" rx brave] by simp
next
  assume late: "T + 5 * 60 * 1000 \<le> t_check clk"
  then have "cache_miss CACHE (displayName cfg, dayOffset, dateStr) (t_check clk)"
    using assms(3) by (simp add: cache_miss_def)
  with assms(1) assms(2) scrapeForecastForDay_miss [of cfg sites clk dayOffset dateStr CACHE rx brave]
  show run: "scrapeForecastForDay rx cfg dayOffset clk brave CACHE
             = Inr (scrape_result rx cfg dayOffset dateStr brave sites,
                    CACHE((displayName cfg, dayOffset, dateStr) \<mapsto>
                      \<lparr>c_ts = t_store clk,
                       c_data = scrape_result rx cfg dayOffset dateStr brave sites\<rparr>),
                    scrape_sequence cfg dayOffset dateStr sites)"
    by (simp add: scrape_loop_result)
  have "cache_miss (CACHE((displayName cfg, dayOffset, dateStr) := None))
          (displayName cfg, dayOffset, dateStr) (t_check clk)"
    by (simp add: cache_miss_def)
  with assms(1) assms(2)
    scrapeForecastForDay_miss [of cfg sites clk dayOffset dateStr
      "CACHE((displayName cfg, dayOffset, dateStr) := None)" rx brave]
  have "scrapeForecastForDay rx cfg dayOffset clk brave
          (CACHE((displayName cfg, dayOffset, dateStr) := None))
        = Inr (scrape_result rx cfg dayOffset dateStr brave sites,
               CACHE((displayName cfg, dayOffset, dateStr) \<mapsto>
                 \<lparr>c_ts = t_store clk,
                  c_data = scrape_result rx cfg dayOffset dateStr brave sites\<rparr>),
               scrape_sequence cfg dayOffset dateStr sites)"
    by (simp add: scrape_loop_result)
  with run show "scrapeForecastForDay rx cfg dayOffset clk brave CACHE
             = scrapeForecastForDay rx cfg dayOffset clk brave
                 (CACHE((displayName cfg, dayOffset, dateStr) := None))"
    by simp
qed

text \<open>
  C6, as the loop runs: on a miss, the events are, for each target in the order of the
  registry, one pause of 1500 ms and then one search for that target. So there is exactly
  one search per target, and one pause per target, the first of them before the first
  search.
\<close>

theorem C6_scrape_sequence:
  assumes "scrapperUrls cfg = Some sites"
    and "toISOString_date (setDate_plus (t_new clk) dayOffset) = Inr dateStr"
    and "cache_miss CACHE (displayName cfg, dayOffset, dateStr) (t_check clk)"
  shows "\<exists>scraped CACHE' evs.
           scrapeForecastForDay rx cfg dayOffset clk brave CACHE = Inr (scraped, CACHE', evs)
         \<and> evs = concat (map (\<lambda>site. [Delay 1500, Search (site_query cfg dayOffset dateStr site)]) sites)
         \<and> searches evs = map (site_query cfg dayOffset dateStr) sites
         \<and> delays evs = replicate (length sites) 1500"
  using assms scrapeForecastForDay_miss [of cfg sites clk dayOffset dateStr CACHE rx brave]
    searches_scrape_sequence [of cfg dayOffset dateStr sites]
    delays_scrape_sequence [of cfg dayOffset dateStr sites]
  by (simp add: scrape_sequence_def)

text \<open>Paris has one target; at time 0 and day offset 0 the date is day 0.\<close>

lemma paris_date0: "toISOString_date (setDate_plus 0 (Some 0)) = Inr 0"
  by (simp add: toISOString_date_def setDate_plus_def msPerDay_def maxTime_def)

text \<open>
  C6 as stated fails for Paris, which has one target: the sequence on a miss holds one
  pause, not none, and the pause comes before the first search.
\<close>

theorem C6_counterexample:
  "scrapperUrls paris = Some [\<lparr>site_id = ''meteo'',
           site_name = ''M'' @ [CHR 0xC3, CHR 0xA9] @ ''t'' @ [CHR 0xC3, CHR 0xA9] @ ''o-France'',
           site_url = ''https://meteofrance.com/previsions-meteo-france/paris/75000''\<rparr>]
   \<and> (case scrapeForecastForDay no_match paris (Some 0) \<lparr>t_new = 0, t_check = 0, t_store = 1500\<rparr> offline Map.empty of
         Inl e \<Rightarrow> False
       | Inr (scraped, CACHE', evs) \<Rightarrow>
           evs = [Delay 1500, Search \<lparr>q_site = ''M'' @ [CHR 0xC3, CHR 0xA9] @ ''t'' @ [CHR 0xC3, CHR 0xA9] @ ''o-France'',
                    q_city = ''PARIS'', q_label = Some ''Today'', q_date = 0\<rparr>]
           \<and> delays evs = [1500])"
  by (simp add: scrapeForecastForDay_def scrape_begin_def paris_def paris_date0 site_query_def
      scrape_finish_def js_index_def dayLabels_def delays_def scrape_site_results_def offline_def)


lemma paris_sites:
  "scrapperUrls paris = Some [\<lparr>site_id = ''meteo'',
           site_name = ''M'' @ [CHR 0xC3, CHR 0xA9] @ ''t'' @ [CHR 0xC3, CHR 0xA9] @ ''o-France'',
           site_url = ''https://meteofrance.com/previsions-meteo-france/paris/75000''\<rparr>]"
  by (simp add: paris_def)

text \<open>C6 at Paris with an empty cache: the hypotheses hold, one pause and one search.\<close>

theorem C6_witness:
  "\<exists>scraped CACHE' evs.
      scrapeForecastForDay no_match paris (Some 0) \<lparr>t_new = 0, t_check = 0, t_store = 1500\<rparr> offline Map.empty
        = Inr (scraped, CACHE', evs)
      \<and> delays evs = [1500] \<and> length (searches evs) = 1"
proof -
  have d: "toISOString_date (setDate_plus (t_new \<lparr>t_new = 0, t_check = 0, t_store = 1500\<rparr>) (Some 0)) = Inr 0"
    by (simp add: paris_date0)
  have m: "cache_miss Map.empty (displayName paris, Some 0, 0) (t_check \<lparr>t_new = 0, t_check = 0, t_store = 1500\<rparr>)"
    by (simp add: cache_miss_def)
  from C6_scrape_sequence [OF paris_sites d m, of no_match offline]
  show ?thesis by auto
qed

text \<open>
  C4 at Paris, with the entry of a scrape that found 25 degrees stored at time 0, when
  the search now gives 20 degrees: a resolve at 299999 ms is served the stored 25 degrees
  from the cache; a resolve at 300000 ms makes the search, returns 20 degrees and stores
  them.
\<close>

theorem C4_witness:
  "scrapeForecastForDay match_20 paris (Some 0) \<lparr>t_new = 0, t_check = 299999, t_store = 301499\<rparr> one_result
      [(''PARIS'', Some 0, 0) \<mapsto> \<lparr>c_ts = 0, c_data = [scraped_source paris (Some 0) meteo_france (Some 25)]\<rparr>]
     = Inr ([scraped_source paris (Some 0) meteo_france (Some 25)],
            [(''PARIS'', Some 0, 0) \<mapsto> \<lparr>c_ts = 0, c_data = [scraped_source paris (Some 0) meteo_france (Some 25)]\<rparr>],
            [])
   \<and> scrapeForecastForDay match_20 paris (Some 0) \<lparr>t_new = 0, t_check = 300000, t_store = 301500\<rparr> one_result
      [(''PARIS'', Some 0, 0) \<mapsto> \<lparr>c_ts = 0, c_data = [scraped_source paris (Some 0) meteo_france (Some 25)]\<rparr>]
     = Inr ([scraped_source paris (Some 0) meteo_france (Some 20)],
            [(''PARIS'', Some 0, 0) \<mapsto> \<lparr>c_ts = 301500, c_data = [scraped_source paris (Some 0) meteo_france (Some 20)]\<rparr>],
            [Delay 1500, Search (site_query paris (Some 0) 0 meteo_france)])
   \<and> temp_c (scraped_source paris (Some 0) meteo_france (Some 25)) = Some 25
   \<and> temp_c (scraped_source paris (Some 0) meteo_france (Some 20)) = Some 20"
proof -
  let ?stale = "[scraped_source paris (Some 0) meteo_france (Some 25)]"
  let ?C = "[(''PARIS'', Some 0, 0) \<mapsto> \<lparr>c_ts = 0, c_data = ?stale\<rparr>]"
  have u: "scrapperUrls paris = Some [meteo_france]"
    by (simp add: paris_def meteo_france_def)
  have k: "?C (displayName paris, Some 0, 0) = Some \<lparr>c_ts = 0, c_data = ?stale\<rparr>"
    by (simp add: paris_def)
  have n: "displayName paris = ''PARIS''" "cfg_unit paris = UnitC"
    by (simp_all add: paris_def)
  have d1: "toISOString_date (setDate_plus (t_new \<lparr>t_new = 0, t_check = 299999, t_store = 301499\<rparr>) (Some 0)) = Inr 0"
    by (simp add: paris_date0)
  have d2: "toISOString_date (setDate_plus (t_new \<lparr>t_new = 0, t_check = 300000, t_store = 301500\<rparr>) (Some 0)) = Inr 0"
    by (simp add: paris_date0)
  have r: "scrape_result match_20 paris (Some 0) 0 one_result [meteo_france]
             = [scraped_source paris (Some 0) meteo_france (Some 20)]"
    by (simp add: scrape_result_def scrape_site_results_def one_result_def match_temp_def
        match_20_def scrape_value_def n)
  have t: "temp_c (scraped_source paris (Some 0) meteo_france (Some 25)) = Some 25"
    "temp_c (scraped_source paris (Some 0) meteo_france (Some 20)) = Some 20"
    by (simp_all add: scraped_source_def new_source_def n)
  show ?thesis
    using u k d1 d2
      C4_cache_ttl [of paris "[meteo_france]" "\<lparr>t_new = 0, t_check = 299999, t_store = 301499\<rparr>"
        "Some 0" 0 ?C 0 ?stale match_20 one_result]
      C4_cache_ttl [of paris "[meteo_france]" "\<lparr>t_new = 0, t_check = 300000, t_store = 301500\<rparr>"
        "Some 0" 0 ?C 0 ?stale match_20 one_result]
    by (simp add: n r t scrape_sequence_def)
qed

section \<open>Calls that overlap\<close>





section \<open>The aggregate routes: city and day\<close>

text \<open>
  C2 at the city key \<^verbatim>\<open>constructor\<close>: it is not in either registry, but the lookup
  \<^verbatim>\<open>STATIONS[city]\<close> finds the member every object inherits, the guard does not
  reject it, and both routes end with a TypeError instead of the answer "Unknown city".
\<close>

theorem C2_inherited_key:
  "map_of STATIONS ''constructor'' = None
   \<and> map_of STATIONS_v2 ''constructor'' = None
   \<and> api_all rx ''constructor'' day clk om brave CACHE = (Unhandled TypeError, CACHE, [])
   \<and> api_all_v2 rx ''constructor'' w sched = Unhandled TypeError"
  by (simp add: api_all_def api_all_v2_def STATIONS_def STATIONS_v2_def js_get_def toLowerCase_def
      lower_char_def Object_prototype_keys_def)

text \<open>A key that is in no registry and is no inherited member is rejected.\<close>

lemma unknown_city_rejected:
  assumes "map_of STATIONS (toLowerCase city) = None"
    and "toLowerCase city \<notin> set Object_prototype_keys"
  shows "api_all rx city day clk om brave CACHE = (UnknownCity, CACHE, [])"
  using assms by (simp add: api_all_def js_get_def)

lemma unknown_city_rejected_v2:
  assumes "map_of STATIONS_v2 (toLowerCase city) = None"
    and "toLowerCase city \<notin> set Object_prototype_keys"
  shows "api_all_v2 rx city w sched = UnknownCity"
  using assms by (simp add: api_all_v2_def js_get_def)

lemma atlantis_rejected:
  "api_all rx ''atlantis'' day clk om brave CACHE = (UnknownCity, CACHE, [])
   \<and> api_all_v2 rx ''atlantis'' w sched = UnknownCity"
  by (simp add: api_all_def api_all_v2_def STATIONS_def STATIONS_v2_def js_get_def toLowerCase_def
      lower_char_def Object_prototype_keys_def)

text \<open>
  C10 at \<^verbatim>\<open>?day=abc\<close> for London: the day parses to \<^verbatim>\<open>NaN\<close>, the date of the scrape
  is invalid, \<^verbatim>\<open>toISOString\<close> throws outside every \<^verbatim>\<open>try\<close>, and the route ends
  with a RangeError instead of a report. The same happens for an integer day so large
  that the date leaves the range of \<^verbatim>\<open>Date\<close>, here a hundred thousand million days
  from a clock in November 2026.
\<close>

theorem C10_unparsable_day:
  "query_day (Some ''abc'') = None
   \<and> api_all rx ''london'' (Some ''abc'') clk om brave CACHE = (Unhandled RangeError, CACHE, [])
   \<and> query_day (Some ''100000000000'') = Some 100000000000
   \<and> api_all rx ''london'' (Some ''100000000000'')
         \<lparr>t_new = 1793664000000, t_check = 1793664000000, t_store = 1793664006000\<rparr> om brave CACHE
       = (Unhandled RangeError, CACHE, [])"
proof -
  have q: "query_day (Some ''abc'') = None"
    by (simp add: query_day_def parseInt_def trim_start_def leading_ws_def white_space_def
        digit_val_def int_number_def number_eval)
  have q': "query_day (Some ''100000000000'') = Some 100000000000"
    by (simp add: query_day_def parseInt_def trim_start_def leading_ws_def white_space_def
        digit_val_def int_number_def number_eval)
  have g: "js_get STATIONS (toLowerCase ''london'') = Own london"
    by (simp add: STATIONS_def js_get_def toLowerCase_def lower_char_def)
  have b: "scrapeForecastForDay rx london None clk brave CACHE = Inl RangeError"
    by (simp add: scrapeForecastForDay_def scrape_begin_def london_def toISOString_date_def
        setDate_plus_def)
  have b': "scrapeForecastForDay rx london (Some 100000000000)
              \<lparr>t_new = 1793664000000, t_check = 1793664000000, t_store = 1793664006000\<rparr> brave CACHE
            = Inl RangeError"
    by (simp add: scrapeForecastForDay_def scrape_begin_def london_def toISOString_date_def
        setDate_plus_def msPerDay_def maxTime_def)
  show ?thesis
    by (simp add: q q' api_all_def g b b' Let_def)
qed

section \<open>The aggregate routes: providers that fail\<close>

lemma mset_concat_map: "mset (concat (map f xs)) = (\<Sum>x\<in>#mset xs. mset (f x))"
  by (induction xs) simp_all

lemma fan_in_mset:
  assumes "mset sched = mset [0 ..< length outs]"
  shows "mset (fan_in outs sched) = mset (concat outs)"
proof -
  let ?f = "\<lambda>i. case js_nth outs i of None \<Rightarrow> [] | Some out \<Rightarrow> out"
  have "mset (fan_in outs sched) = (\<Sum>i\<in>#mset sched. mset (?f i))"
    unfolding fan_in_def by (rule mset_concat_map)
  also have "\<dots> = (\<Sum>i\<in>#mset [0 ..< length outs]. mset (?f i))"
    by (simp only: assms)
  also have "\<dots> = mset (concat (map ?f [0 ..< length outs]))"
    by (rule mset_concat_map [symmetric])
  also have "map ?f [0 ..< length outs] = outs"
    by (rule nth_equalityI) (simp_all add: js_nth_def)
  finally show ?thesis .
qed

lemma task_failed: "isl r \<Longrightarrow> task handler r = []"
  by (cases r) (simp_all add: task_def)

lemma tasks_v2_all_failed:
  assumes "all_failed_v2 w"
  shows "concat (tasks_v2 rx cfg w) = []"
  using assms by (simp add: tasks_v2_def all_failed_v2_def task_failed)

lemma api_all_v2_reports:
  assumes "map_of STATIONS_v2 (toLowerCase city) = Some cfg"
    and "mset sched = mset [0 ..< length (tasks_v2 rx cfg w)]"
  shows "\<exists>rep. api_all_v2 rx city w sched = Json rep
           \<and> mset (r_sources rep) = mset (concat (tasks_v2 rx cfg w))"
  using assms by (simp add: api_all_v2_def js_get_def fan_in_mset)

lemma empty_card_v2:
  assumes "r_sources rep = []"
  shows "card_avg (createCityCard_v2 rep n) = Null \<and> card_spread (createCityCard_v2 rep n) = None"
  using assms by (simp add: createCityCard_v2_def ordered_def average_def spread_of_def)

lemma empty_card:
  assumes "r_sources rep = []"
  shows "card_avg (createCityCard rep) = Null \<and> card_spread (createCityCard rep) = None"
  using assms by (simp add: createCityCard_def average_def spread_of_def)

lemma scrape_loop_all_rejected:
  assumes "\<And>q. isl (brave q)"
  shows "snd (scrape_loop rx cfg dayOffset dateStr brave sites) = []"
proof (induction sites)
  case Nil
  show ?case by simp
next
  case (Cons site sites)
  have "scrape_site_results rx cfg dayOffset site (brave (site_query cfg dayOffset dateStr site)) = []"
    using assms [of "site_query cfg dayOffset dateStr site"]
    by (cases "brave (site_query cfg dayOffset dateStr site)") (simp_all add: scrape_site_results_def)
  with Cons show ?case by (simp add: Let_def split_beta)
qed

lemma valid_date:
  assumes "\<bar>t + d * msPerDay\<bar> \<le> maxTime"
  shows "toISOString_date (setDate_plus t (Some d)) = Inr ((t + d * msPerDay) div msPerDay)"
  using assms by (simp add: toISOString_date_def setDate_plus_def Let_def)

text \<open>
  The day offsets of the request contract, 0 to 2, give a valid date at every clock from
  the epoch to two days before the end of the range of dates.
\<close>

lemma contract_date:
  assumes "0 \<le> d" "d \<le> 2" "0 \<le> t" "t \<le> maxTime - 2 * msPerDay"
  shows "\<bar>t + d * msPerDay\<bar> \<le> maxTime"
proof -
  have "d * msPerDay \<le> 2 * msPerDay" "0 \<le> d * msPerDay"
    using assms(1,2) by (simp_all add: msPerDay_def)
  then show ?thesis
    using assms(3,4) by linarith
qed

lemma scrapeForecastForDay_returns:
  assumes "toISOString_date (setDate_plus (t_new clk) dayOffset) = Inr dateStr"
  shows "\<exists>scraped CACHE' evs. scrapeForecastForDay rx cfg dayOffset clk brave CACHE = Inr (scraped, CACHE', evs)"
  using assms
  by (auto simp: scrapeForecastForDay_def scrape_begin_def Let_def split_beta
      split: option.splits)

lemma api_all_reports:
  assumes "map_of STATIONS (toLowerCase city) = Some cfg"
    and "toISOString_date (setDate_plus (t_new clk) (query_day day)) = Inr dateStr"
  shows "\<exists>rep CACHE' evs scraped.
           api_all rx city day clk om brave CACHE = (Json rep, CACHE', evs)
         \<and> scrapeForecastForDay rx cfg (query_day day) clk brave CACHE = Inr (scraped, CACHE', evs)
         \<and> r_sources rep
             = task (\<lambda>p. open_meteo_day cfg p (query_day day) (openMeteoModels cfg)) om @ scraped"
proof -
  obtain scraped CACHE' evs
    where s: "scrapeForecastForDay rx cfg (query_day day) clk brave CACHE = Inr (scraped, CACHE', evs)"
    using scrapeForecastForDay_returns [OF assms(2)] by blast
  show ?thesis
    using assms(1) by (simp add: api_all_def js_get_def Let_def s)
qed

text \<open>
  Failing providers are absorbed in \<^verbatim>\<open>server.js\<close>, and in the day-aware route for a day
  that parses to an integer offset whose date is in the range of \<^verbatim>\<open>Date\<close> (the offsets
  0 to 2 of the request contract among them). A request for a city of the registry is
  answered with a report, whatever subset of the providers fails. In \<^verbatim>\<open>server.js\<close>
  the sources of the report are, up to the order of completion, those that the handlers
  build from the answers that arrived, a rejected fetch giving none. In the day-aware
  route they are those of the Open-Meteo answer, if it arrived, followed by those the
  scrape returns. When every provider fails, the list is empty and the card has no average
  and no spread.
\<close>

lemma task_produced: "task handler r = produced handler r"
  by (cases r) (simp_all add: task_def produced_def)

lemma partial_failure_absorbed:
  assumes "map_of STATIONS_v2 (toLowerCase city) = Some cfg"
    and "mset sched = mset [0 ..< length (tasks_v2 rx cfg w)]"
    and "map_of STATIONS (toLowerCase city') = Some cfg'"
    and "query_day day = Some d"
    and "\<bar>t_new clk + d * msPerDay\<bar> \<le> maxTime"
  shows "(\<exists>rep. api_all_v2 rx city w sched = Json rep
            \<and> mset (r_sources rep) = mset (produced_v2 rx cfg w)
            \<and> (all_failed_v2 w \<longrightarrow>
                 r_sources rep = [] \<and> card_avg (createCityCard_v2 rep n) = Null
                 \<and> card_spread (createCityCard_v2 rep n) = None))
       \<and> (\<exists>rep CACHE' evs scraped.
              api_all rx city' day clk om brave CACHE = (Json rep, CACHE', evs)
            \<and> scrapeForecastForDay rx cfg' (Some d) clk brave CACHE = Inr (scraped, CACHE', evs)
            \<and> r_sources rep
                = produced (\<lambda>p. open_meteo_day cfg' p (Some d) (openMeteoModels cfg')) om @ scraped
            \<and> (isl om \<and> scraped = [] \<longrightarrow>
                 r_sources rep = [] \<and> card_avg (createCityCard rep) = Null
                 \<and> card_spread (createCityCard rep) = None))"
proof
  have p: "concat (tasks_v2 rx cfg w) = produced_v2 rx cfg w"
    by (simp add: tasks_v2_def produced_v2_def task_produced)
  obtain rep where r: "api_all_v2 rx city w sched = Json rep"
    "mset (r_sources rep) = mset (produced_v2 rx cfg w)"
    using api_all_v2_reports [OF assms(1) assms(2)] unfolding p by blast
  have "all_failed_v2 w \<longrightarrow> r_sources rep = []"
  proof
    assume "all_failed_v2 w"
    then have "concat (tasks_v2 rx cfg w) = []"
      by (rule tasks_v2_all_failed)
    with r(2) show "r_sources rep = []" by (simp add: p)
  qed
  with r empty_card_v2 [of rep n]
  show "\<exists>rep. api_all_v2 rx city w sched = Json rep
            \<and> mset (r_sources rep) = mset (produced_v2 rx cfg w)
            \<and> (all_failed_v2 w \<longrightarrow>
                 r_sources rep = [] \<and> card_avg (createCityCard_v2 rep n) = Null
                 \<and> card_spread (createCityCard_v2 rep n) = None)"
    by blast
next
  have d: "toISOString_date (setDate_plus (t_new clk) (query_day day))
             = Inr ((t_new clk + d * msPerDay) div msPerDay)"
    unfolding assms(4) using assms(5) by (rule valid_date)
  obtain rep CACHE' evs scraped where r:
    "api_all rx city' day clk om brave CACHE = (Json rep, CACHE', evs)"
    "scrapeForecastForDay rx cfg' (Some d) clk brave CACHE = Inr (scraped, CACHE', evs)"
    "r_sources rep = task (\<lambda>p. open_meteo_day cfg' p (Some d) (openMeteoModels cfg')) om @ scraped"
    using api_all_reports [OF assms(3) d, of rx om brave CACHE] unfolding assms(4) by blast
  have "isl om \<and> scraped = [] \<longrightarrow> r_sources rep = []"
    using r(3) by (simp add: task_failed)
  with r empty_card [of rep]
  show "\<exists>rep CACHE' evs scraped.
              api_all rx city' day clk om brave CACHE = (Json rep, CACHE', evs)
            \<and> scrapeForecastForDay rx cfg' (Some d) clk brave CACHE = Inr (scraped, CACHE', evs)
            \<and> r_sources rep
                = produced (\<lambda>p. open_meteo_day cfg' p (Some d) (openMeteoModels cfg')) om @ scraped
            \<and> (isl om \<and> scraped = [] \<longrightarrow>
                 r_sources rep = [] \<and> card_avg (createCityCard rep) = Null
                 \<and> card_spread (createCityCard rep) = None)"
    unfolding task_produced by blast
qed

lemma london_known_v2: "map_of STATIONS_v2 (toLowerCase ''London'') = Some london_v2"
  by (simp add: STATIONS_v2_def toLowerCase_def lower_char_def)

lemma london_known: "map_of STATIONS (toLowerCase ''london'') = Some london"
  by (simp add: STATIONS_def toLowerCase_def lower_char_def)

lemma london_tasks_v2: "length (tasks_v2 rx london_v2 w) = 4"
  by (simp add: tasks_v2_def london_v2_def truthy_def)

text \<open>
  At London with every provider down, both routes answer with a report that has no
  source, and the cards have no average and no spread.
\<close>

lemma all_down_reports:
  "(\<exists>rep. api_all_v2 no_match ''London'' down_v2 [3, 1, 0, 2] = Json rep
       \<and> r_sources rep = [] \<and> card_avg (createCityCard_v2 rep 0) = Null
       \<and> card_spread (createCityCard_v2 rep 0) = None)
   \<and> (\<exists>rep CACHE' evs.
         api_all no_match ''london'' (Some ''1'') \<lparr>t_new = 0, t_check = 0, t_store = 6000\<rparr>
           (Inl FetchError) offline Map.empty = (Json rep, CACHE', evs)
       \<and> r_sources rep = [] \<and> card_avg (createCityCard rep) = Null
       \<and> card_spread (createCityCard rep) = None)"
proof -
  have "[0 ..< (4::nat)] = [0, 1, 2, 3]"
    by (simp add: upt_rec)
  then have h2: "mset [3, 1, 0, 2] = mset [0 ..< length (tasks_v2 no_match london_v2 down_v2)]"
    by (simp add: london_tasks_v2)
  have h4: "query_day (Some ''1'') = Some 1"
    by (simp add: query_day_def parseInt_def trim_start_def leading_ws_def white_space_def
        digit_val_def int_number_def number_eval)
  have h5: "\<bar>t_new \<lparr>t_new = 0, t_check = 0, t_store = 6000\<rparr> + 1 * msPerDay\<bar> \<le> maxTime"
    by (rule contract_date) (simp_all add: maxTime_def msPerDay_def)
  have f: "all_failed_v2 down_v2"
    by (simp add: all_failed_v2_def down_v2_def)
  have o: "\<And>q. isl (offline q)"
    by (simp add: offline_def)
  have d: "toISOString_date (setDate_plus (t_new \<lparr>t_new = 0, t_check = 0, t_store = 6000\<rparr>) (Some 1)) = Inr 1"
    by (simp add: toISOString_date_def setDate_plus_def msPerDay_def maxTime_def)
  have u: "scrapperUrls london = Some (the (scrapperUrls london))"
    by (simp add: london_def)
  have m: "cache_miss Map.empty (displayName london, Some 1, 1) (t_check \<lparr>t_new = 0, t_check = 0, t_store = 6000\<rparr>)"
    by (simp add: cache_miss_def)
  have sc: "\<exists>C evs. scrapeForecastForDay no_match london (Some 1) \<lparr>t_new = 0, t_check = 0, t_store = 6000\<rparr>
              offline Map.empty = Inr ([], C, evs)"
    using scrapeForecastForDay_miss [OF u d m, of no_match offline]
    by (simp add: scrape_loop_all_rejected [OF o])
  from partial_failure_absorbed [OF london_known_v2 h2 london_known h4 h5,
      of 0 "Inl FetchError" offline Map.empty] f sc
  show ?thesis by auto
qed

text \<open>
  The day parameter as \<^verbatim>\<open>parseInt\<close> reads it. The white space that is skipped
  includes the no-break space, so a no-break space followed by the digit 2 is day 2.
\<close>

lemma query_day_examples:
  "query_day None = Some 0"
  "query_day (Some []) = Some 0"
  "query_day (Some ''2'') = Some 2"
  "query_day (Some ([CHR 0xC2, CHR 0xA0] @ ''2'')) = Some 2"
  "query_day (Some '' -1'') = Some (- 1)"
  "query_day (Some ''2.7'') = Some 2"
  "query_day (Some ''0x10'') = Some 16"
  "query_day (Some ''tomorrow'') = None"
  by (simp_all add: query_day_def parseInt_def trim_start_def leading_ws_def white_space_def
      digit_val_def hex_val_def int_number_def number_eval floor_minus)

lemma skip_ws_done: "length s \<le> n \<Longrightarrow> leading_ws (skip_ws n s) = None"
proof (induction n arbitrary: s)
  case 0
  then show ?case by (simp add: leading_ws_def white_space_def)
next
  case (Suc n)
  show ?case
  proof (cases "leading_ws s")
    case None
    then show ?thesis by simp
  next
    case (Some w)
    then have "w \<in> set white_space" "take (length w) s = w"
      unfolding leading_ws_def by (auto simp: find_Some_iff)
    then have "w \<noteq> []" "s \<noteq> []"
      by (auto simp: white_space_def)
    then have "length (drop (length w) s) \<le> n"
      using Suc.prems by (cases w) auto
    then show ?thesis
      using Some Suc.IH by simp
  qed
qed

text \<open>After the white space is skipped, the string does not start with white space.\<close>

lemma trim_start_done: "leading_ws (trim_start s) = None"
  unfolding trim_start_def by (rule skip_ws_done) simp

text \<open>
  C1 fails in the day-aware route for a registered city when the day does not parse.
  At Paris with \<^verbatim>\<open>?day=tomorrow\<close>, whatever Open-Meteo and the searches answer, and
  whatever the clock and the cache are, \<^verbatim>\<open>toISOString\<close> throws on the invalid date
  before the scrape loop and outside every \<^verbatim>\<open>try\<close>: the route ends with the
  RangeError, no report is sent, and the sources that the Open-Meteo task had pushed are
  lost. With \<^verbatim>\<open>?day=1\<close> the same request, with Open-Meteo down and the search
  answered, gets a report with the scraped source.
\<close>

theorem C1_invalid_day_aborts:
  "map_of STATIONS ''paris'' = Some paris
   \<and> query_day (Some ''tomorrow'') = None
   \<and> api_all rx ''paris'' (Some ''tomorrow'') clk om brave CACHE = (Unhandled RangeError, CACHE, [])
   \<and> fst (api_all match_20 ''paris'' (Some ''1'') \<lparr>t_new = 0, t_check = 0, t_store = 1500\<rparr>
            (Inl FetchError) one_result Map.empty)
       = Json \<lparr>r_city = ''paris'', r_station = ''LFPG'', r_name = None, r_displayName = ''PARIS'',
               r_unit = UnitC,
               r_sources = [scraped_source paris (Some 1) meteo_france (Some 20)]\<rparr>"
proof -
  have q: "query_day (Some ''tomorrow'') = None" "query_day (Some ''1'') = Some 1"
    by (simp_all add: query_day_def parseInt_def trim_start_def leading_ws_def white_space_def
        digit_val_def int_number_def number_eval)
  have g: "map_of STATIONS ''paris'' = Some paris" "js_get STATIONS ''paris'' = Own paris"
    "toLowerCase ''paris'' = ''paris''"
    by (simp_all add: STATIONS_def js_get_def toLowerCase_def lower_char_def)
  have b: "scrapeForecastForDay rx paris None clk brave CACHE = Inl RangeError"
    by (simp add: scrapeForecastForDay_def scrape_begin_def paris_def toISOString_date_def
        setDate_plus_def)
  have n: "displayName paris = ''PARIS''" "cfg_unit paris = UnitC" "icao paris = ''LFPG''"
    "scrapperUrls paris = Some [meteo_france]"
    by (simp_all add: paris_def meteo_france_def)
  have d: "toISOString_date (setDate_plus 0 (Some 1)) = Inr 1"
    by (simp add: toISOString_date_def setDate_plus_def msPerDay_def maxTime_def)
  have s: "scrapeForecastForDay match_20 paris (Some 1) \<lparr>t_new = 0, t_check = 0, t_store = 1500\<rparr>
             one_result Map.empty
           = Inr ([scraped_source paris (Some 1) meteo_france (Some 20)],
                  [(''PARIS'', Some 1, 1) \<mapsto>
                     \<lparr>c_ts = 1500, c_data = [scraped_source paris (Some 1) meteo_france (Some 20)]\<rparr>],
                  [Delay 1500, Search (site_query paris (Some 1) 1 meteo_france)])"
    by (simp add: scrapeForecastForDay_def scrape_begin_def n d scrape_finish_def
        scrape_site_results_def one_result_def match_temp_def match_20_def scrape_value_def)
  show ?thesis
    by (simp add: q g api_all_def b s n task_def Let_def)
qed

section \<open>The city card: average and spread\<close>









lemma in_task:
  "s \<in> set (task handler r) \<Longrightarrow> \<exists>d. r = Inr d \<and> s \<in> set (handler d)"
  by (cases r) (simp_all add: task_def)









text \<open>
  How far the numbers of the card are from the exact ones. For up to a million values of
  magnitude up to 1000, the average is a finite number within 0.00001 of the mean of the
  values in the real numbers, and the spread is within 0.000004 of their exact
  difference.
\<close>

lemma sum_from_near:
  assumes "\<forall>v \<in> set vs. \<bar>v\<bar> \<le> 1000"
    and "k + length vs \<le> 1000000"
    and "\<bar>a - A\<bar> \<le> real k / 262144"
    and "\<bar>A\<bar> \<le> real k * 1000"
  shows "\<exists>s. sum_from (Some a) vs = Some s
           \<and> \<bar>s - (A + sum_list vs)\<bar> \<le> real (k + length vs) / 262144"
  using assms
proof (induction vs arbitrary: a A k)
  case Nil
  then show ?case by simp
next
  case (Cons v vs)
  have v: "\<bar>v\<bar> \<le> 1000" using Cons.prems(1) by simp
  have k: "real k \<le> 1000000" using Cons.prems(2) by simp
  have "\<bar>a + v\<bar> \<le> 34359738368"
    using v k Cons.prems(3,4) by argo
  then obtain a' where a': "fl (a + v) = Some a'" "\<bar>a' - (a + v)\<bar> \<le> 1 / 262144"
    by (rule fl_step)
  have 1: "\<forall>v \<in> set vs. \<bar>v\<bar> \<le> 1000" using Cons.prems(1) by simp
  have 2: "Suc k + length vs \<le> 1000000" using Cons.prems(2) by simp
  have 3: "\<bar>a' - (A + v)\<bar> \<le> real (Suc k) / 262144"
    using a'(2) Cons.prems(3) by (simp add: field_simps; argo)
  have 4: "\<bar>A + v\<bar> \<le> real (Suc k) * 1000"
    using v Cons.prems(4) by (simp add: field_simps; argo)
  from Cons.IH [OF 1 2 3 4] obtain s where
    "sum_from (Some a') vs = Some s"
    "\<bar>s - (A + v + sum_list vs)\<bar> \<le> real (Suc k + length vs) / 262144"
    by blast
  then show ?case
    by (simp add: js_add_def a'(1) add.assoc)
qed

lemma mean_of_near:
  assumes "vs \<noteq> []" and "length vs \<le> 1000000" and "\<forall>v \<in> set vs. \<bar>v\<bar> \<le> 1000"
  shows "\<exists>a. mean_of vs = Val (Some a) \<and> \<bar>a - exact_mean vs\<bar> \<le> 1 / 100000"
proof -
  define n where "n = real (length vs)"
  have n: "1 \<le> n" "n \<le> 1000000"
    using assms(1,2) by (simp_all add: n_def Suc_leI)
  obtain s where s: "sum_from (Some 0) vs = Some s" "\<bar>s - sum_list vs\<bar> \<le> n / 262144"
    using sum_from_near [of vs 0 0 0] assms(2,3) by (auto simp: n_def)
  have b: "\<bar>sum_list vs\<bar> \<le> n * 1000"
    using assms(3) unfolding n_def
  proof (induction vs)
    case Nil
    show ?case by simp
  next
    case (Cons v vs)
    then have "\<bar>v\<bar> \<le> 1000" "\<bar>sum_list vs\<bar> \<le> real (length vs) * 1000" by simp_all
    then show ?case by (simp add: field_simps; argo)
  qed
  have d: "\<bar>s / n - sum_list vs / n\<bar> \<le> 1 / 262144"
  proof -
    have "s / n - sum_list vs / n = (s - sum_list vs) / n"
      by (simp add: diff_divide_distrib)
    then have "\<bar>s / n - sum_list vs / n\<bar> = \<bar>s - sum_list vs\<bar> / n"
      using n(1) by simp
    also have "\<dots> \<le> (n / 262144) / n"
      using s(2) n(1) by (intro divide_right_mono) simp_all
    also have "\<dots> = 1 / 262144"
      using n(1) by simp
    finally show ?thesis .
  qed
  have "\<bar>sum_list vs / n\<bar> \<le> 1000"
  proof -
    have "\<bar>sum_list vs / n\<bar> = \<bar>sum_list vs\<bar> / n" using n(1) by simp
    also have "\<dots> \<le> (n * 1000) / n"
      using b n(1) by (intro divide_right_mono) simp_all
    also have "\<dots> = 1000" using n(1) by simp
    finally show ?thesis .
  qed
  with d have "\<bar>s / n\<bar> \<le> 34359738368" by argo
  then obtain a where a: "fl (s / n) = Some a" "\<bar>a - s / n\<bar> \<le> 1 / 262144"
    by (rule fl_step)
  have "mean_of vs = Val (Some a)"
    using assms(1) by (simp add: mean_of_def s(1) js_div_def a(1) n_def [symmetric])
  moreover have "\<bar>a - exact_mean vs\<bar> \<le> 1 / 100000"
    using a(2) d unfolding exact_mean_def n_def [symmetric] by argo
  ultimately show ?thesis by blast
qed

lemma spread_spec_near:
  assumes "2 \<le> length vs" and "\<forall>v \<in> set vs. \<bar>v\<bar> \<le> 1000"
  shows "\<exists>x cls. spread_spec vs = Some (Some x, cls)
           \<and> \<bar>x - (Max (set vs) - Min (set vs))\<bar> \<le> 1 / 262144"
proof -
  have ne: "set vs \<noteq> {}" using assms(1) by auto
  have "Max (set vs) \<in> set vs" "Min (set vs) \<in> set vs"
    using ne by (simp_all add: Max_in Min_in)
  then have "\<bar>Max (set vs)\<bar> \<le> 1000" "\<bar>Min (set vs)\<bar> \<le> 1000"
    using assms(2) by blast+
  then have "\<bar>Max (set vs) - Min (set vs)\<bar> \<le> 34359738368" by argo
  then obtain x where "fl (Max (set vs) - Min (set vs)) = Some x"
    "\<bar>x - (Max (set vs) - Min (set vs))\<bar> \<le> 1 / 262144"
    by (rule fl_step)
  then show ?thesis
    using assms(1) by (simp add: spread_spec_def)
qed

text \<open>
  The boundaries of the classes: a spread of 1.5 is tight and a spread of 3 is medium.
  The literals 14.6 and 16.1 denote doubles whose difference, which is a double and is
  not rounded, is 1.5000000000000018: it is above 1.5 and the class is medium. Their
  average is the double 15.350000000000001.
\<close>

lemma card_examples:
  "spread_of [0, 3 / 2] = Some (Some (3 / 2), Tight)"
  "spread_of [0, 3] = Some (Some 3, Medium)"
  "fl (146 / 10) = Some (8219069319951155 / 562949953421312)"
  "fl (161 / 10) = Some (2265873562520781 / 140737488355328)"
  "2265873562520781 / 140737488355328 - 8219069319951155 / 562949953421312
     = (844424930131969 / 562949953421312 :: real)"
  "spread_of [8219069319951155 / 562949953421312, 2265873562520781 / 140737488355328]
     = Some (Some (844424930131969 / 562949953421312), Medium)"
  "average [8219069319951155 / 562949953421312, 2265873562520781 / 140737488355328]
     = Val (Some (2160320446254285 / 140737488355328))"
  by (simp_all add: spread_of_def spread_cls_def Math_max_def Math_min_def average_def number_eval)








section \<open>Temperature pairs\<close>

lemma pair_converted_cToF: "pair_converted (c, cToF c)"
  by (cases c; cases "cToF c") (simp_all add: pair_converted_def)

lemma pair_converted_fToC: "pair_converted (fToC f, f)"
  by (cases f; cases "fToC f") (simp_all add: pair_converted_def)

lemma pair_converted_None [simp]: "pair_converted (None, x)" "pair_converted (y, None)"
  by (simp_all add: pair_converted_def split: option.splits)

lemma pairs_metar:
  assumes "s \<in> set (metar_handler d)" "p \<in> set (pairs_of s)"
  shows "pair_converted p"
  using assms pair_converted_cToF
  by (auto simp: metar_handler_def pairs_of_def new_source_def split: list.splits option.splits)

lemma pairs_nws_obs:
  assumes "s \<in> set (nws_obs_handler d)" "p \<in> set (pairs_of s)"
  shows "src_id s = Id ''nws_obs'' \<and> (\<exists>v. pair_of_reading v p)"
proof (cases "temperature_value d")
  case None
  with assms(1) show ?thesis by (simp add: nws_obs_handler_def)
next
  case (Some v)
  with assms have "src_id s = Id ''nws_obs''" "pair_of_reading v p"
    by (auto simp: nws_obs_handler_def pairs_of_def new_source_def pair_of_reading_def round10_def)
  then show ?thesis by blast
qed

lemma pairs_nws_forecast:
  assumes "s \<in> set (nws_forecast_handler d)" "p \<in> set (pairs_of s)"
  shows "pair_converted p"
  using assms pair_converted_fToC
  by (auto simp: nws_forecast_handler_def pairs_of_def new_source_def split: option.splits)

lemma set_AList_update:
  "x \<in> set (AList.update k v al) \<Longrightarrow> x = (k, v) \<or> x \<in> set al"
  by (induction al) (auto split: if_splits)

lemma fold_daily_max:
  assumes "\<forall>x \<in> set acc. pair_converted (snd x)"
  shows "\<forall>x \<in> set (fold (\<lambda>(i, day) acc.
             (let tc = (case js_nth series i of None \<Rightarrow> None | Some v \<Rightarrow> v)
              in AList.update day (tc, cToF tc) acc)) xs acc). pair_converted (snd x)"
  using assms
proof (induction xs arbitrary: acc)
  case Nil
  then show ?case by simp
next
  case (Cons a xs)
  obtain i day where a: "a = (i, day)" by (cases a)
  show ?case
    unfolding a fold_Cons comp_apply
    apply (rule Cons.IH)
    using Cons.prems pair_converted_cToF
    by (auto simp: Let_def dest!: set_AList_update)
qed

lemma pairs_daily_max: "x \<in> set (daily_max_of ds series) \<Longrightarrow> pair_converted (snd x)"
  using fold_daily_max [of "[]" series "zip [0 ..< length ds] ds"]
  by (simp add: daily_max_of_def)

lemma pairs_open_meteo_models:
  assumes "s \<in> set (open_meteo_models cfg d ds models)" "p \<in> set (pairs_of s)"
  shows "pair_converted p"
  using assms
proof (induction models)
  case Nil
  then show ?case by simp
next
  case (Cons model models)
  show ?case
  proof (cases "s \<in> set (open_meteo_models cfg d ds models)")
    case True
    with Cons show ?thesis by simp
  next
    case False
    with Cons.prems(1) obtain series label where
      s: "s = (new_source (Id (''model_'' @ toLowerCase label)) (Some label) Model)
                \<lparr>days := Some ds, dailyMax := Some (daily_max_of ds series)\<rparr>"
      by (auto split: option.splits)
    have "pairs_of s = (None, None) # map snd (daily_max_of ds series)"
      by (simp add: s pairs_of_def new_source_def)
    with Cons.prems(2) have "p = (None, None) \<or> (\<exists>x \<in> set (daily_max_of ds series). p = snd x)"
      by auto
    then show ?thesis
      using pairs_daily_max by auto
  qed
qed

lemma pairs_open_meteo:
  assumes "s \<in> set (open_meteo_handler cfg d)" "p \<in> set (pairs_of s)"
  shows "pair_converted p"
proof -
  from assms(1) obtain ds where "s \<in> set (open_meteo_models cfg d ds (openMeteoModels cfg))"
    by (auto simp: open_meteo_handler_def split: option.splits)
  then show ?thesis using assms(2) by (rule pairs_open_meteo_models)
qed

lemma pairs_iem:
  assumes "s \<in> set (iem_handler d)" "p \<in> set (pairs_of s)"
  shows "pair_converted p"
  using assms pair_converted_fToC
  by (auto simp: iem_handler_def pairs_of_def new_source_def
      split: list.splits option.splits if_splits)

lemma pairs_metoffice:
  assumes "s \<in> set (metoffice_handler rx page)" "p \<in> set (pairs_of s)"
  shows "pair_converted p"
  using assms pair_converted_cToF
  by (auto simp: metoffice_handler_def pairs_of_def new_source_def scraped_today_def
      split: option.splits)

lemma pairs_wu:
  assumes "s \<in> set (wu_handler rx cfg page)" "p \<in> set (pairs_of s)"
  shows "pair_converted p"
  using assms pair_converted_cToF pair_converted_fToC
  by (auto simp: wu_handler_def pairs_of_def new_source_def scraped_today_def Let_def
      split: option.splits if_splits)

lemma pairs_tasks_v2:
  assumes "s \<in> set (concat (tasks_v2 rx cfg w))" "p \<in> set (pairs_of s)"
  shows "pair_converted p \<or> (src_id s = Id ''nws_obs'' \<and> (\<exists>v. pair_of_reading v p))"
proof -
  from assms(1) consider
      "s \<in> set (task metar_handler (w_metar w))"
    | "s \<in> set (task nws_obs_handler (w_nws_obs w))"
    | "s \<in> set (task nws_forecast_handler (w_nws_forecast w))"
    | "s \<in> set (task (open_meteo_handler cfg) (w_open_meteo w))"
    | "s \<in> set (task iem_handler (w_iem w))"
    | "s \<in> set (task (metoffice_handler rx) (w_metoffice w))"
    | "s \<in> set (task (wu_handler rx cfg) (w_wu w))"
    by (auto simp: tasks_v2_def split: if_splits)
  then show ?thesis
  proof cases
    case 1 with assms(2) show ?thesis by (blast dest: in_task pairs_metar)
  next
    case 2 with assms(2) show ?thesis by (blast dest: in_task pairs_nws_obs)
  next
    case 3 with assms(2) show ?thesis by (blast dest: in_task pairs_nws_forecast)
  next
    case 4 with assms(2) show ?thesis by (blast dest: in_task pairs_open_meteo)
  next
    case 5 with assms(2) show ?thesis by (blast dest: in_task pairs_iem)
  next
    case 6 with assms(2) show ?thesis by (blast dest: in_task pairs_metoffice)
  next
    case 7 with assms(2) show ?thesis by (blast dest: in_task pairs_wu)
  qed
qed

lemma pairs_open_meteo_day:
  assumes "s \<in> set (open_meteo_day cfg d dayOffset models)" "p \<in> set (pairs_of s)"
  shows "pair_converted p"
  using assms
proof (induction models)
  case Nil
  then show ?case by simp
next
  case (Cons model models)
  then show ?case
    using pair_converted_cToF
    by (auto simp: pairs_of_def new_source_def Let_def split: option.splits)
qed

lemma pairs_scraped_source:
  assumes "p \<in> set (pairs_of (scraped_source cfg dayOffset site val))"
  shows "pair_converted p"
  using assms pair_converted_cToF pair_converted_fToC
  by (cases "cfg_unit cfg") (auto simp: scraped_source_def pairs_of_def new_source_def)

lemma pairs_scrapeForecast_search:
  assumes "s \<in> set (scrapeForecast_search rx cfg site n dateStr reply)" "p \<in> set (pairs_of s)"
  shows "pair_converted p"
  using assms pair_converted_cToF pair_converted_fToC
  by (cases "cfg_unit cfg")
     (auto simp: scrapeForecast_search_def pairs_of_def new_source_def Let_def
      split: sum.splits option.splits if_splits)

lemma pairs_scan_results:
  assumes "s \<in> set (scan_results rx cfg dayOffset site results)" "p \<in> set (pairs_of s)"
  shows "pair_converted p"
  using assms
  by (induction rx cfg dayOffset site results rule: scan_results.induct)
     (auto split: option.splits dest: pairs_scraped_source)

lemma pairs_scrape_loop:
  assumes "s \<in> set (snd (scrape_loop rx cfg dayOffset dateStr brave sites))" "p \<in> set (pairs_of s)"
  shows "pair_converted p"
  using assms
proof (induction sites)
  case Nil
  then show ?case by simp
next
  case (Cons site sites)
  then show ?case
    by (auto simp: Let_def split_beta scrape_site_results_def split: sum.splits
        dest: pairs_scan_results)
qed

text \<open>
  C5, as the adapters build their pairs: in every source pushed by a task of
  \<^verbatim>\<open>server.js\<close>, by the Open-Meteo task of the day-aware route, by the scrape loop or by
  a search of the scrape without a cache, every pair with both fields present has one field that is the conversion of the other;
  except in the source of the NWS observation, whose two fields are both roundings of the
  same raw reading.
\<close>

theorem C5_temperature_pairs:
  assumes "s \<in> set (concat (tasks_v2 rx cfg w))
             \<union> set (task (\<lambda>d. open_meteo_day cfg' d dayOffset (openMeteoModels cfg')) om)
             \<union> set (snd (scrape_loop rx cfg' dayOffset dateStr brave sites))
             \<union> set (scrapeForecast_search rx cfg'' site n day reply)"
    and "p \<in> set (pairs_of s)"
  shows "pair_converted p \<or> (src_id s = Id ''nws_obs'' \<and> (\<exists>v. pair_of_reading v p))"
proof -
  from assms(1) consider
      "s \<in> set (concat (tasks_v2 rx cfg w))"
    | "s \<in> set (task (\<lambda>d. open_meteo_day cfg' d dayOffset (openMeteoModels cfg')) om)"
    | "s \<in> set (snd (scrape_loop rx cfg' dayOffset dateStr brave sites))"
    | "s \<in> set (scrapeForecast_search rx cfg'' site n day reply)"
    by blast
  then show ?thesis
  proof cases
    case 1 then show ?thesis using assms(2) by (rule pairs_tasks_v2)
  next
    case 2 with assms(2) show ?thesis by (blast dest: in_task pairs_open_meteo_day)
  next
    case 3 with assms(2) show ?thesis by (blast dest: pairs_scrape_loop)
  next
    case 4 with assms(2) show ?thesis by (blast dest: pairs_scrapeForecast_search)
  qed
qed

text \<open>
  C5 as stated fails for the NWS observation of 21.14 degrees Celsius: the source carries
  21.1 and 70.1, while 21.1 converts to 70.0 and 70.1 converts to 21.2. The numbers are
  the doubles that these decimals denote.
\<close>

theorem C5_counterexample:
  "task nws_obs_handler (Inr \<lparr>temperature_value = fl (2114 / 100), timestamp = None\<rparr>)
     = [(new_source (Id ''nws_obs'') (Some ''NWS Observation'') Live)
          \<lparr>temp_c := fl (211 / 10), temp_f := fl (701 / 10), src_time := None\<rparr>]
   \<and> cToF (fl (211 / 10)) = Some 70
   \<and> fToC (fl (701 / 10)) = fl (212 / 10)
   \<and> \<not> pair_converted (fl (211 / 10), fl (701 / 10))"
  by (simp add: task_def nws_obs_handler_def pair_converted_def number_eval)

text \<open>C5 at the METAR source of 20 degrees in London: the pair is 20 and 68.\<close>

theorem C5_witness:
  "pair_converted (Some 20, Some 68)
   \<or> (src_id ((new_source (Id ''metar'') (Some ''METAR Sensor'') Live)
                \<lparr>temp_c := Some 20, temp_f := Some 68, src_time := None\<rparr>) = Id ''nws_obs''
       \<and> (\<exists>v. pair_of_reading v (Some 20, Some 68)))"
proof -
  have a: "(new_source (Id ''metar'') (Some ''METAR Sensor'') Live)
                \<lparr>temp_c := Some 20, temp_f := Some 68, src_time := None\<rparr>
             \<in> set (concat (tasks_v2 no_match london_v2
                   (down_v2\<lparr>w_metar := Inr [\<lparr>m_temp = Some 20, m_reportTime = None\<rparr>]\<rparr>)))
               \<union> set (task (\<lambda>d. open_meteo_day london d (Some 0) (openMeteoModels london)) (Inl FetchError))
               \<union> set (snd (scrape_loop no_match london (Some 0) 0 offline []))
               \<union> set (scrapeForecast_search no_match london \<lparr>site_id = ''bbc'', site_name = ''BBC Weather'',
                    site_url = ''https://www.bbc.com/weather/2643743''\<rparr> 0 ''2026-11-02'' (Inl FetchError))"
    by (simp add: tasks_v2_def task_def metar_handler_def down_v2_def london_v2_def truthy_def
        number_eval)
  have b: "(Some 20, Some 68) \<in> set (pairs_of ((new_source (Id ''metar'') (Some ''METAR Sensor'') Live)
                \<lparr>temp_c := Some 20, temp_f := Some 68, src_time := None\<rparr>))"
    by (simp add: pairs_of_def new_source_def)
  from C5_temperature_pairs [OF a b] show ?thesis .
qed

end
